theory Spec2Isabelle
  imports Main "HOL-Library.Word"
begin

unbundle bit_operations_syntax

section \<open>Multicast group and subscriber maps (pkg/maps/multicast/subscribermap.go)\<close>

subsection \<open>Addresses and errors\<close>

type_synonym byte = "8 word"

type_synonym byte4 = "byte \<times> byte \<times> byte \<times> byte"

text \<open>
  \<open>netip.Addr\<close> of the Go standard library: the zero value, an IPv4 address (four
  octets) or an IPv6 address (sixteen octets and a zone). An IPv4-mapped IPv6 address is an
  IPv6 address.
\<close>

datatype Addr = AddrZero | Addr4 byte4 | Addr6 "byte list" string

text \<open>
  Go error values. The sentinels \<open>ErrKeyNotExist\<close>, \<open>ErrKeyExist\<close> and
  \<open>ErrNotSupported\<close> are those of the ebpf library; \<open>Errno\<close> stands for any other
  error the table service reports. \<open>Errorf f as\<close> is \<open>fmt.Errorf(f, as...)\<close> without a
  wrapped error and \<open>Wrapf f as e\<close> is \<open>fmt.Errorf(f, as..., e)\<close> where \<open>f\<close> ends in
  \<open>%w\<close>: the format string and the address arguments are kept as they are passed.
\<close>

datatype error =
    ErrKeyNotExist
  | ErrKeyExist
  | ErrNotSupported
  | Errno nat
  | Errorf string "Addr list"
  | Wrapf string "Addr list" error

text \<open>\<open>errors.Is(err, target)\<close>: \<open>err\<close> or an error it wraps equals \<open>target\<close>.\<close>

fun errors_Is :: "error \<Rightarrow> error \<Rightarrow> bool" where
  "errors_Is (Wrapf f as e) t = (Wrapf f as e = t \<or> errors_Is e t)"
| "errors_Is e t = (e = t)"

subsection \<open>Address predicates (net/netip)\<close>

definition Is4 :: "Addr \<Rightarrow> bool" where
  "Is4 ip = (case ip of Addr4 _ \<Rightarrow> True | _ \<Rightarrow> False)"

definition Is4In6 :: "Addr \<Rightarrow> bool" where
  "Is4In6 ip = (case ip of
     Addr6 bs _ \<Rightarrow> length bs = 16 \<and> take 12 bs = replicate 10 0 @ [0xff, 0xff]
   | _ \<Rightarrow> False)"

definition Unmap :: "Addr \<Rightarrow> Addr" where
  "Unmap ip = (case ip of
     Addr6 bs z \<Rightarrow>
       (if Is4In6 ip then Addr4 (bs ! 12, bs ! 13, bs ! 14, bs ! 15) else ip)
   | _ \<Rightarrow> ip)"

definition IsMulticast :: "Addr \<Rightarrow> bool" where
  "IsMulticast ip0 =
     (let ip = (if Is4In6 ip0 then Unmap ip0 else ip0) in
      case ip of
        Addr4 (a, _, _, _) \<Rightarrow> a AND 0xf0 = 0xe0
      | Addr6 bs _ \<Rightarrow> (case bs of [] \<Rightarrow> False | b # _ \<Rightarrow> b = 0xff)
      | AddrZero \<Rightarrow> False)"

text \<open>\<open>As4\<close> panics on the zero value and on an IPv6 address that is not IPv4-mapped:
  \<open>None\<close>.\<close>

definition As4 :: "Addr \<Rightarrow> byte4 option" where
  "As4 ip = (case ip of
     Addr4 b \<Rightarrow> Some b
   | Addr6 bs _ \<Rightarrow>
       (if Is4In6 ip then Some (bs ! 12, bs ! 13, bs ! 14, bs ! 15) else None)
   | AddrZero \<Rightarrow> None)"

text \<open>\<open>k.Group[:]\<close>: the slice over a four-byte array.\<close>

definition slice4 :: "byte4 \<Rightarrow> byte list" where
  "slice4 b = (case b of (b0, b1, b2, b3) \<Rightarrow> [b0, b1, b2, b3])"

text \<open>\<open>netip.AddrFromSlice\<close>: a 4-byte slice is an IPv4 address, a 16-byte slice an IPv6
  address, any other length gives the zero address and \<open>false\<close>.\<close>

definition AddrFromSlice :: "byte list \<Rightarrow> Addr \<times> bool" where
  "AddrFromSlice s =
     (if length s = 4 then (Addr4 (s ! 0, s ! 1, s ! 2, s ! 3), True)
      else if length s = 16 then (Addr6 s [], True)
      else (AddrZero, False))"

subsection \<open>Keys and values\<close>

record GroupV4Key =
  Group :: byte4

record GroupV4Val =
  FD :: "32 word"

record SubscriberV4Key =
  SAddr :: byte4

record SubscriberV4 =
  sub_SAddr :: Addr
  sub_Ifindex :: "32 word"
  sub_IsRemote :: bool

record SubscriberV4Val =
  SourceAddr :: byte4
  Ifindex :: "32 word"
  Pad1 :: "16 word"
  Pad2 :: "8 word"
  Flags :: "8 word"

definition MaxGroups :: nat where
  "MaxGroups = 1024"

definition MaxSubscribers :: nat where
  "MaxSubscribers = 1024"

text \<open>\<open>SubscriberRemote SubscriberFlags = (1 << 0)\<close>\<close>

definition SubscriberRemote :: "32 word" where
  "SubscriberRemote = push_bit 0 1"

text \<open>A run-time panic is not an error value; the codec functions return it as \<open>None\<close>.\<close>

definition NewGroupV4KeyFromNetIPAddr :: "Addr \<Rightarrow> (error + GroupV4Key) option" where
  "NewGroupV4KeyFromNetIPAddr ip =
     (if \<not> Is4 ip \<or> \<not> IsMulticast ip
      then Some (Inl (Errorf ''ip must be an IPv4 multicast address'' []))
      else (case As4 ip of
              None \<Rightarrow> None
            | Some b \<Rightarrow> Some (Inr \<lparr>Group = b\<rparr>)))"

definition GroupV4Key_ToNetIPAddr :: "GroupV4Key \<Rightarrow> Addr \<times> bool" where
  "GroupV4Key_ToNetIPAddr k = AddrFromSlice (slice4 (Group k))"

definition NewSubscriberV4KeyFromNetIPAddr :: "Addr \<Rightarrow> (error + SubscriberV4Key) option" where
  "NewSubscriberV4KeyFromNetIPAddr ip =
     (if \<not> Is4 ip
      then Some (Inl (Errorf ''ip must be IPv4'' []))
      else (case As4 ip of
              None \<Rightarrow> None
            | Some b \<Rightarrow> Some (Inr \<lparr>SAddr = b\<rparr>)))"

definition SubscriberV4Key_ToNetIPAddr :: "SubscriberV4Key \<Rightarrow> Addr \<times> bool" where
  "SubscriberV4Key_ToNetIPAddr k = AddrFromSlice (slice4 (SAddr k))"

definition ToSubsciberV4 :: "SubscriberV4Val \<Rightarrow> error + SubscriberV4" where
  "ToSubsciberV4 v =
     (case SubscriberV4Key_ToNetIPAddr \<lparr>SAddr = SourceAddr v\<rparr> of
        (saddr, ok) \<Rightarrow>
          if \<not> ok
          then Inl (Errorf ''failed to convert SubscriberV4Val.SAddr to netip.Addr'' [])
          else
            let sub = \<lparr>sub_SAddr = saddr, sub_Ifindex = Ifindex v, sub_IsRemote = False\<rparr>
            in Inr (if Flags v \<noteq> 0 then sub\<lparr>sub_IsRemote := True\<rparr> else sub))"

subsection \<open>The table service (ebpf.Map)\<close>

text \<open>
  The methods of \<open>ebpf.Map\<close> that this file calls are not part of it: they are
  parameters of the development, the fields of the record below. The type \<open>'w\<close> is the
  state of the table service (the kernel), which every call reads and some calls change.
  \<^item> \<open>Map_Iterate\<close>: the entries that successive \<open>iter.Next\<close> calls of \<open>m.Iterate()\<close>
    yield before \<open>Next\<close> returns false, and the value of \<open>iter.Err()\<close> afterwards.
  \<^item> \<open>Map_BatchFetch cursor n\<close>: what one bulk fetch at \<open>cursor\<close> with buffers of
    \<open>n\<close> elements delivers: the entries, the error and the next cursor. The zero value of
    \<open>MapBatchCursor\<close> is the cursor \<open>0\<close>.
\<close>

datatype MapUpdateFlags = UpdateAny | UpdateNoExist | UpdateExist

record ('k, 'v, 'w) ebpf_Map =
  Map_OpenOrCreate :: "'w \<Rightarrow> error option \<times> 'w"
  Map_FD :: "'w \<Rightarrow> int"
  Map_Close :: "'w \<Rightarrow> error option \<times> 'w"
  Map_Update :: "'k \<Rightarrow> 'v \<Rightarrow> MapUpdateFlags \<Rightarrow> 'w \<Rightarrow> error option \<times> 'w"
  Map_Lookup :: "'k \<Rightarrow> 'w \<Rightarrow> error + 'v"
  Map_Delete :: "'k \<Rightarrow> 'w \<Rightarrow> error option \<times> 'w"
  Map_Iterate :: "'w \<Rightarrow> ('k \<times> 'v) list \<times> error option"
  Map_BatchFetch :: "nat \<Rightarrow> nat \<Rightarrow> 'w \<Rightarrow> ('k \<times> 'v) list \<times> error option \<times> nat"

text \<open>
  \<open>m.BatchLookup(&cursor, keysOut, valuesOut, nil)\<close>: the entries of one bulk fetch are
  stored at the start of the two output slices, whose other elements keep their values;
  the call returns the number of entries stored and the error, and advances the cursor.
  The result is (count, error, cursor, keysOut, valuesOut).
\<close>

definition BatchLookup ::
  "('k, 'v, 'w) ebpf_Map \<Rightarrow> 'w \<Rightarrow> nat \<Rightarrow> 'k list \<Rightarrow> 'v list
     \<Rightarrow> nat \<times> error option \<times> nat \<times> 'k list \<times> 'v list" where
  "BatchLookup m w cursor keysOut valuesOut =
     (let n = min (length keysOut) (length valuesOut) in
      case Map_BatchFetch m cursor n w of
        (es, err, cursor') \<Rightarrow>
          let es' = take n es; c = length es' in
          (c, err, cursor', map fst es' @ drop c keysOut, map snd es' @ drop c valuesOut))"

subsection \<open>GroupV4OuterMap\<close>

record 'w GroupV4OuterMap =
  Map :: "(GroupV4Key, GroupV4Val, 'w) ebpf_Map"
  batchLookupSupported :: bool

type_synonym 'w SubscriberV4InnerMap = "(SubscriberV4Key, SubscriberV4Val, 'w) ebpf_Map"

text \<open>\<open>haveBatchLookupSupport[K, V]\<close>; \<open>zk\<close> and \<open>zv\<close> are the zero values of \<open>K\<close> and
  \<open>V\<close> that \<open>make\<close> fills the two one-element slices with.\<close>

definition haveBatchLookupSupport :: "'k \<Rightarrow> 'v \<Rightarrow> ('k, 'v, 'w) ebpf_Map \<Rightarrow> 'w \<Rightarrow> bool" where
  "haveBatchLookupSupport zk zv m w =
     (let keys = replicate 1 zk; vals = replicate 1 zv in
      case BatchLookup m w 0 keys vals of
        (_, err, _) \<Rightarrow>
          (case err of
             Some e \<Rightarrow> if errors_Is e ErrNotSupported then False else True
           | None \<Rightarrow> True))"

definition zeroGroupV4Key :: GroupV4Key where
  "zeroGroupV4Key = \<lparr>Group = (0, 0, 0, 0)\<rparr>"

definition zeroGroupV4Val :: GroupV4Val where
  "zeroGroupV4Val = \<lparr>FD = 0\<rparr>"

definition zeroSubscriberV4Key :: SubscriberV4Key where
  "zeroSubscriberV4Key = \<lparr>SAddr = (0, 0, 0, 0)\<rparr>"

definition zeroSubscriberV4Val :: SubscriberV4Val where
  "zeroSubscriberV4Val =
     \<lparr>SourceAddr = (0, 0, 0, 0), Ifindex = 0, Pad1 = 0, Pad2 = 0, Flags = 0\<rparr>"

text \<open>\<open>NewGroupV4OuterMap\<close>; \<open>m\<close> is the map object \<open>ebpf.NewMap\<close> returns.\<close>

definition NewGroupV4OuterMap :: "(GroupV4Key, GroupV4Val, 'w) ebpf_Map \<Rightarrow> 'w GroupV4OuterMap" where
  "NewGroupV4OuterMap m = \<lparr>Map = m, batchLookupSupported = False\<rparr>"

text \<open>The \<open>OnStart\<close> hook that \<open>NewGroupV4Map\<close> registers; it returns the error and the
  map object as the hook leaves it.\<close>

definition OnStart :: "'w GroupV4OuterMap \<Rightarrow> 'w \<Rightarrow> error option \<times> 'w GroupV4OuterMap \<times> 'w" where
  "OnStart groupMap w =
     (case Map_OpenOrCreate (Map groupMap) w of
        (Some err, w') \<Rightarrow> (Some err, groupMap, w')
      | (None, w') \<Rightarrow>
          (None,
           groupMap\<lparr>batchLookupSupported :=
             haveBatchLookupSupport zeroGroupV4Key zeroGroupV4Val (Map groupMap) w'\<rparr>,
           w'))"

text \<open>\<open>OpenGroupV4OuterMap\<close>; \<open>LoadRegisterMap\<close> is the result of
  \<open>ebpf.LoadRegisterMap(logger, name)\<close>.\<close>

definition OpenGroupV4OuterMap ::
  "(error + (GroupV4Key, GroupV4Val, 'w) ebpf_Map) \<Rightarrow> 'w \<Rightarrow> error + 'w GroupV4OuterMap" where
  "OpenGroupV4OuterMap LoadRegisterMap w =
     (case LoadRegisterMap of
        Inl err \<Rightarrow> Inl err
      | Inr m \<Rightarrow>
          Inr \<lparr>Map = m,
               batchLookupSupported = haveBatchLookupSupport zeroGroupV4Key zeroGroupV4Val m w\<rparr>)"

text \<open>\<open>newSubscriberV4InnerMap\<close>; \<open>m\<close> is the map object \<open>ebpf.NewMap(logger, spec)\<close>
  returns.\<close>

definition newSubscriberV4InnerMap ::
  "'w SubscriberV4InnerMap \<Rightarrow> 'w \<Rightarrow> (error + 'w SubscriberV4InnerMap) \<times> 'w" where
  "newSubscriberV4InnerMap m w =
     (case Map_OpenOrCreate m w of
        (Some err, w') \<Rightarrow> (Inl err, w')
      | (None, w') \<Rightarrow> (Inr m, w'))"

text \<open>
  \<open>GroupV4OuterMap.Insert\<close> (\<open>grp\<close> is the parameter \<open>group\<close>). The result is \<open>None\<close> for a run-time panic, else the
  returned error and the state of the table service. \<open>uint32(subMap.FD())\<close> truncates.
\<close>

definition Insert ::
  "'w SubscriberV4InnerMap \<Rightarrow> 'w GroupV4OuterMap \<Rightarrow> Addr \<Rightarrow> 'w \<Rightarrow> (error option \<times> 'w) option" where
  "Insert NewMap m grp w =
     (case NewGroupV4KeyFromNetIPAddr grp of
        None \<Rightarrow> None
      | Some (Inl err) \<Rightarrow> Some (Some err, w)
      | Some (Inr key) \<Rightarrow>
          (case newSubscriberV4InnerMap NewMap w of
             (Inl err, w1) \<Rightarrow>
               Some (Some (Wrapf ''failed to create SubscriberV4InnerMap: %w'' [] err), w1)
           | (Inr subMap, w1) \<Rightarrow>
               let val = \<lparr>FD = word_of_int (Map_FD subMap w1)\<rparr> in
               (case Map_Update (Map m) key val UpdateNoExist w1 of
                  (Some err, w2) \<Rightarrow>
                    (case Map_Close subMap w2 of
                       (_, w3) \<Rightarrow>
                         Some (Some (Wrapf ''failed to create new multicast group entry: %w'' [] err),
                               w3))
                | (None, w2) \<Rightarrow> Some (None, w2))))"

text \<open>\<open>GroupV4OuterMap.Delete\<close>\<close>

definition Delete :: "'w GroupV4OuterMap \<Rightarrow> Addr \<Rightarrow> 'w \<Rightarrow> (error option \<times> 'w) option" where
  "Delete m grp w =
     (case NewGroupV4KeyFromNetIPAddr grp of
        None \<Rightarrow> None
      | Some (Inl err) \<Rightarrow> Some (Some err, w)
      | Some (Inr key) \<Rightarrow> Some (Map_Delete (Map m) key w))"

text \<open>
  \<open>GroupV4OuterMap.ListIterator\<close>. The loop returns \<open>Inl\<close> where the function returns
  from inside the loop and \<open>Inr out\<close> where the loop ends.
\<close>

fun ListIterator_loop ::
  "(GroupV4Key \<times> GroupV4Val) list \<Rightarrow> Addr list \<Rightarrow> (Addr list \<times> error) + Addr list" where
  "ListIterator_loop [] out = Inr out"
| "ListIterator_loop ((key, val) # rest) out =
     (case GroupV4Key_ToNetIPAddr key of
        (ip, ok) \<Rightarrow>
          if \<not> ok then Inl (out, Errorf ''failed to convert key to netip.Addr'' [])
          else ListIterator_loop rest (out @ [ip]))"

definition ListIterator :: "'w GroupV4OuterMap \<Rightarrow> 'w \<Rightarrow> Addr list \<times> error option" where
  "ListIterator m w =
     (case Map_Iterate (Map m) w of
        (entries, iterErr) \<Rightarrow>
          (case ListIterator_loop entries [] of
             Inl (out, err) \<Rightarrow> (out, Some err)
           | Inr out \<Rightarrow> (out, iterErr)))"

text \<open>
  The cursor loop of \<open>ListBatch\<close> and of \<open>SubscriberV4InnerMap.List\<close> (the same text in
  both). It may run forever: \<open>None\<close>. \<open>Inl\<close> is the error of \<open>return nil, batchErr\<close>,
  \<open>Inr\<close> the buffers and the count at \<open>break\<close>.
\<close>

partial_function (option) batch_loop ::
  "('k, 'v, 'w) ebpf_Map \<Rightarrow> 'w \<Rightarrow> nat \<Rightarrow> 'k list \<Rightarrow> 'v list \<Rightarrow> nat
     \<Rightarrow> (error + 'k list \<times> 'v list \<times> nat) option" where
  "batch_loop m w cursor keys vals count =
     (case BatchLookup m w cursor keys vals of
        (c, batchErr, cursor', keys', vals') \<Rightarrow>
          (case batchErr of
             Some e \<Rightarrow>
               if errors_Is e ErrKeyNotExist then Some (Inr (keys', vals', count + c))
               else Some (Inl e)
           | None \<Rightarrow> batch_loop m w cursor' keys' vals' (count + c)))"

text \<open>The second loop of \<open>ListBatch\<close>, from index \<open>i\<close> on.\<close>

function ListBatch_out :: "GroupV4Key list \<Rightarrow> nat \<Rightarrow> nat \<Rightarrow> Addr list \<Rightarrow> error + Addr list" where
  "ListBatch_out keys count i out =
     (if i < length keys \<and> i < count then
        (case GroupV4Key_ToNetIPAddr (keys ! i) of
           (grp, ok) \<Rightarrow>
             if \<not> ok then Inl (Errorf ''failed to convert GroupV4Key.Group to netip.Addr'' [])
             else ListBatch_out keys count (i + 1) (out @ [grp]))
      else Inr out)"
  by pat_completeness auto
termination
  by (relation "measure (\<lambda>(keys, count, i, out). min (length keys) count - i)") auto

declare ListBatch_out.simps [simp del]

text \<open>\<open>GroupV4OuterMap.ListBatch\<close>; a nil slice is the empty list.\<close>

definition ListBatch :: "'w GroupV4OuterMap \<Rightarrow> 'w \<Rightarrow> (Addr list \<times> error option) option" where
  "ListBatch m w =
     (let keys = replicate MaxGroups zeroGroupV4Key;
          vals = replicate MaxGroups zeroGroupV4Val
      in case batch_loop (Map m) w 0 keys vals 0 of
           None \<Rightarrow> None
         | Some (Inl batchErr) \<Rightarrow> Some ([], Some batchErr)
         | Some (Inr (keys', vals', count)) \<Rightarrow>
             (case ListBatch_out keys' count 0 [] of
                Inl err \<Rightarrow> Some ([], Some err)
              | Inr out \<Rightarrow> Some (out, None)))"

text \<open>\<open>GroupV4OuterMap.List\<close>\<close>

definition List :: "'w GroupV4OuterMap \<Rightarrow> 'w \<Rightarrow> (Addr list \<times> error option) option" where
  "List m w =
     (if batchLookupSupported m then ListBatch m w else Some (ListIterator m w))"

subsection \<open>SubscriberV4InnerMap\<close>

text \<open>\<open>SubscriberV4InnerMap.Insert\<close>; \<open>uint8(flags)\<close> truncates.\<close>

definition SubscriberV4InnerMap_Insert ::
  "'w SubscriberV4InnerMap \<Rightarrow> SubscriberV4 \<Rightarrow> 'w \<Rightarrow> (error option \<times> 'w) option" where
  "SubscriberV4InnerMap_Insert m s w =
     (case NewSubscriberV4KeyFromNetIPAddr (sub_SAddr s) of
        None \<Rightarrow> None
      | Some (Inl err) \<Rightarrow> Some (Some err, w)
      | Some (Inr key) \<Rightarrow>
          let flags = (if sub_IsRemote s then (0 :: 32 word) OR SubscriberRemote else 0);
              val = \<lparr>SourceAddr = SAddr key, Ifindex = sub_Ifindex s, Pad1 = 0, Pad2 = 0,
                     Flags = ucast flags\<rparr>
          in (case Map_Update m key val UpdateNoExist w of
                (Some err, w') \<Rightarrow>
                  Some (Some (Wrapf ''failed to insert multicast subscriber: %w'' [] err), w')
              | (None, w') \<Rightarrow> Some (None, w')))"

text \<open>\<open>SubscriberV4InnerMap.Lookup\<close>\<close>

definition SubscriberV4InnerMap_Lookup ::
  "'w SubscriberV4InnerMap \<Rightarrow> Addr \<Rightarrow> 'w \<Rightarrow> (error + SubscriberV4) option" where
  "SubscriberV4InnerMap_Lookup m Src w =
     (case NewSubscriberV4KeyFromNetIPAddr Src of
        None \<Rightarrow> None
      | Some (Inl err) \<Rightarrow> Some (Inl err)
      | Some (Inr key) \<Rightarrow>
          (case Map_Lookup m key w of
             Inl err \<Rightarrow>
               if errors_Is err ErrKeyNotExist
               then Some (Inl (Wrapf ''no subscriber with source address %s: %w'' [Src] err))
               else Some (Inl (Wrapf ''failed to lookup subscriber %s: %w'' [Src] err))
           | Inr val \<Rightarrow>
               (case ToSubsciberV4 val of
                  Inl err \<Rightarrow> Some (Inl err)
                | Inr sub \<Rightarrow> Some (Inr sub))))"

text \<open>\<open>SubscriberV4InnerMap.Delete\<close>\<close>

definition SubscriberV4InnerMap_Delete ::
  "'w SubscriberV4InnerMap \<Rightarrow> Addr \<Rightarrow> 'w \<Rightarrow> (error option \<times> 'w) option" where
  "SubscriberV4InnerMap_Delete m Src w =
     (case NewSubscriberV4KeyFromNetIPAddr Src of
        None \<Rightarrow> None
      | Some (Inl err) \<Rightarrow> Some (Some err, w)
      | Some (Inr key) \<Rightarrow> Some (Map_Delete m key w))"

text \<open>The second loop of \<open>SubscriberV4InnerMap.List\<close>, from index \<open>i\<close> on.\<close>

function List_out ::
  "SubscriberV4Val list \<Rightarrow> nat \<Rightarrow> nat \<Rightarrow> SubscriberV4 list \<Rightarrow> error + SubscriberV4 list" where
  "List_out vals count i out =
     (if i < length vals \<and> i < count then
        (case ToSubsciberV4 (vals ! i) of
           Inl err \<Rightarrow> Inl err
         | Inr sub \<Rightarrow> List_out vals count (i + 1) (out @ [sub]))
      else Inr out)"
  by pat_completeness auto
termination
  by (relation "measure (\<lambda>(vals, count, i, out). min (length vals) count - i)") auto

declare List_out.simps [simp del]

text \<open>\<open>SubscriberV4InnerMap.List\<close>\<close>

definition SubscriberV4InnerMap_List ::
  "'w SubscriberV4InnerMap \<Rightarrow> 'w \<Rightarrow> (SubscriberV4 list \<times> error option) option" where
  "SubscriberV4InnerMap_List m w =
     (let keys = replicate MaxSubscribers zeroSubscriberV4Key;
          vals = replicate MaxSubscribers zeroSubscriberV4Val
      in case batch_loop m w 0 keys vals 0 of
           None \<Rightarrow> None
         | Some (Inl batchErr) \<Rightarrow> Some ([], Some batchErr)
         | Some (Inr (keys', vals', count)) \<Rightarrow>
             (case List_out vals' count 0 [] of
                Inl err \<Rightarrow> Some ([], Some err)
              | Inr out \<Rightarrow> Some (out, None)))"

subsection \<open>What the enumerations decode\<close>

text \<open>The address a group key holds and the subscriber a stored value holds, as the two
  decoding loops produce them when no conversion fails.\<close>

definition GroupAddr :: "GroupV4Key \<Rightarrow> Addr" where
  "GroupAddr k = Addr4 (Group k)"

definition SubscriberOf :: "SubscriberV4Val \<Rightarrow> SubscriberV4" where
  "SubscriberOf v =
     \<lparr>sub_SAddr = Addr4 (SourceAddr v), sub_Ifindex = Ifindex v, sub_IsRemote = (Flags v \<noteq> 0)\<rparr>"

text \<open>The cursor after \<open>i\<close> bulk fetches with buffers of \<open>n\<close> elements that start at
  cursor \<open>c\<close>, and the error of the next fetch.\<close>

fun cursor_after :: "('k, 'v, 'w) ebpf_Map \<Rightarrow> 'w \<Rightarrow> nat \<Rightarrow> nat \<Rightarrow> nat \<Rightarrow> nat" where
  "cursor_after m w n c 0 = c"
| "cursor_after m w n c (Suc i) =
     cursor_after m w n (snd (snd (Map_BatchFetch m c n w))) i"

definition fetch_error :: "('k, 'v, 'w) ebpf_Map \<Rightarrow> 'w \<Rightarrow> nat \<Rightarrow> nat \<Rightarrow> error option" where
  "fetch_error m w n i = fst (snd (Map_BatchFetch m (cursor_after m w n 0 i) n w))"

text \<open>An error that carries an address: \<open>fmt.Errorf\<close> with a wrapped error and the
  address among its arguments.\<close>

definition wraps_with_address :: "error \<Rightarrow> Addr \<Rightarrow> bool" where
  "wraps_with_address e a = (case e of Wrapf _ as _ \<Rightarrow> a \<in> set as | _ \<Rightarrow> False)"

subsection \<open>Table services to run the code on\<close>

text \<open>
  Modelled from the spec: the table service behind \<open>ebpf.Map\<close> (the kernel and the ebpf
  library), which is not part of this file. Its state is the outer table, one inner table
  and the open inner-table handles. Following section 6 of the specification: an atomic
  insert-if-absent that fails with "already exists" on a present key and with an error at
  capacity, a lookup and a delete that fail with "not found" on an absent key, a sequential
  iteration that yields every entry once, a bulk fetch that returns "an entry count and
  either a continuation or an exhaustion signal", and an explicit release of a handle. One
  bulk fetch hands over the entries from the cursor position on, at most \<open>per\<close> of them
  and at most as many as the buffers hold, and reports "no more entries" with the call that
  reaches the end of the table; the cursor is the position in the table. The limit
  \<open>per\<close> is a parameter of the service: section 4.3 of the specification does not let
  the caller assume that a single call suffices.
\<close>

record kernel =
  groups :: "(GroupV4Key \<times> GroupV4Val) list"
  subscribers :: "(SubscriberV4Key \<times> SubscriberV4Val) list"
  handles :: "int list"

definition table_Update ::
  "nat \<Rightarrow> 'k \<Rightarrow> 'v \<Rightarrow> MapUpdateFlags \<Rightarrow> ('k \<times> 'v) list \<Rightarrow> error option \<times> ('k \<times> 'v) list" where
  "table_Update cap k v f t =
     (if k \<in> fst ` set t then
        (if f = UpdateNoExist then (Some ErrKeyExist, t)
         else (None, map (\<lambda>(k', v'). if k' = k then (k', v) else (k', v')) t))
      else if f = UpdateExist then (Some ErrKeyNotExist, t)
      else if cap \<le> length t then (Some (Errno 7), t)
      else (None, t @ [(k, v)]))"

definition table_Lookup :: "'k \<Rightarrow> ('k \<times> 'v) list \<Rightarrow> error + 'v" where
  "table_Lookup k t = (case map_of t k of None \<Rightarrow> Inl ErrKeyNotExist | Some v \<Rightarrow> Inr v)"

definition table_Delete :: "'k \<Rightarrow> ('k \<times> 'v) list \<Rightarrow> error option \<times> ('k \<times> 'v) list" where
  "table_Delete k t =
     (if k \<in> fst ` set t then (None, filter (\<lambda>e. fst e \<noteq> k) t)
      else (Some ErrKeyNotExist, t))"

definition table_BatchFetch ::
  "nat \<Rightarrow> nat \<Rightarrow> nat \<Rightarrow> ('k \<times> 'v) list
     \<Rightarrow> ('k \<times> 'v) list \<times> error option \<times> nat" where
  "table_BatchFetch per cursor n t =
     (let c = min per n in
      (take c (drop cursor t),
       if length t \<le> cursor + c then Some ErrKeyNotExist else None,
       cursor + c))"

text \<open>The outer table on a service whose bulk fetch is limited by the buffers alone.\<close>

definition kernel_outer :: "(GroupV4Key, GroupV4Val, kernel) ebpf_Map" where
  "kernel_outer =
     \<lparr>Map_OpenOrCreate = (\<lambda>w. (None, w)),
      Map_FD = (\<lambda>w. 3),
      Map_Close = (\<lambda>w. (None, w)),
      Map_Update = (\<lambda>k v f w.
        case table_Update MaxGroups k v f (groups w) of (e, t) \<Rightarrow> (e, w\<lparr>groups := t\<rparr>)),
      Map_Lookup = (\<lambda>k w. table_Lookup k (groups w)),
      Map_Delete = (\<lambda>k w. case table_Delete k (groups w) of (e, t) \<Rightarrow> (e, w\<lparr>groups := t\<rparr>)),
      Map_Iterate = (\<lambda>w. (groups w, None)),
      Map_BatchFetch = (\<lambda>cursor n w. table_BatchFetch n cursor n (groups w))\<rparr>"

text \<open>The outer table on a service that hands over at most \<open>per\<close> entries with one
  bulk fetch.\<close>

definition kernel_outer_per :: "nat \<Rightarrow> (GroupV4Key, GroupV4Val, kernel) ebpf_Map" where
  "kernel_outer_per per =
     kernel_outer\<lparr>Map_BatchFetch := \<lambda>cursor n w. table_BatchFetch per cursor n (groups w)\<rparr>"

text \<open>The inner table whose handle is \<open>fd\<close>: opening it registers the handle, closing it
  releases the handle.\<close>

definition kernel_inner :: "int \<Rightarrow> (SubscriberV4Key, SubscriberV4Val, kernel) ebpf_Map" where
  "kernel_inner fd =
     \<lparr>Map_OpenOrCreate = (\<lambda>w. (None, w\<lparr>handles := fd # handles w\<rparr>)),
      Map_FD = (\<lambda>w. fd),
      Map_Close = (\<lambda>w. (None, w\<lparr>handles := remove1 fd (handles w)\<rparr>)),
      Map_Update = (\<lambda>k v f w.
        case table_Update MaxSubscribers k v f (subscribers w) of
          (e, t) \<Rightarrow> (e, w\<lparr>subscribers := t\<rparr>)),
      Map_Lookup = (\<lambda>k w. table_Lookup k (subscribers w)),
      Map_Delete = (\<lambda>k w.
        case table_Delete k (subscribers w) of (e, t) \<Rightarrow> (e, w\<lparr>subscribers := t\<rparr>)),
      Map_Iterate = (\<lambda>w. (subscribers w, None)),
      Map_BatchFetch = (\<lambda>cursor n w. table_BatchFetch n cursor n (subscribers w))\<rparr>"

text \<open>
  Modelled from the spec: a table service that answers the successive bulk fetches of one
  enumeration from a script, one reply (entries and error) for each call; the cursor counts
  the calls. Section 6 of the specification lets a bulk fetch return "an entry count and
  either a continuation or an exhaustion signal"; after the script the service reports
  exhaustion.
\<close>

definition scripted_BatchFetch ::
  "(('k \<times> 'v) list \<times> error option) list \<Rightarrow> nat \<Rightarrow> nat \<Rightarrow> 'w
     \<Rightarrow> ('k \<times> 'v) list \<times> error option \<times> nat" where
  "scripted_BatchFetch script cursor n w =
     (if cursor < length script
      then (fst (script ! cursor), snd (script ! cursor), cursor + 1)
      else ([], Some ErrKeyNotExist, cursor))"

section \<open>Properties\<close>

subsection \<open>Auxiliary facts\<close>

lemma Is4_As4: "Is4 ip \<Longrightarrow> \<exists>b. ip = Addr4 b \<and> As4 ip = Some b"
  by (cases ip) (auto simp: Is4_def As4_def)

lemma GroupV4Key_ToNetIPAddr_eq: "GroupV4Key_ToNetIPAddr k = (GroupAddr k, True)"
  by (cases k, cases "Group k")
     (simp add: GroupV4Key_ToNetIPAddr_def AddrFromSlice_def slice4_def GroupAddr_def)

lemma ToSubsciberV4_eq: "ToSubsciberV4 v = Inr (SubscriberOf v)"
  by (cases "SourceAddr v")
     (simp add: ToSubsciberV4_def SubscriberV4Key_ToNetIPAddr_def AddrFromSlice_def slice4_def
        SubscriberOf_def Let_def)

lemma ListIterator_loop_eq:
  "ListIterator_loop es out = Inr (out @ map (\<lambda>e. GroupAddr (fst e)) es)"
  by (induction es out rule: ListIterator_loop.induct) (simp_all add: GroupV4Key_ToNetIPAddr_eq)

lemma ListBatch_out_eq:
  "ListBatch_out keys count i out = Inr (out @ map GroupAddr (drop i (take count keys)))"
proof (induction keys count i out rule: ListBatch_out.induct)
  case (1 keys count i out)
  show ?case
  proof (cases "i < length keys \<and> i < count")
    case True
    then have d: "drop i (take count keys) = keys ! i # drop (Suc i) (take count keys)"
      by (simp add: Cons_nth_drop_Suc [symmetric])
    from True 1 show ?thesis
      by (subst ListBatch_out.simps) (simp add: GroupV4Key_ToNetIPAddr_eq d)
  next
    case False
    then have "drop i (take count keys) = []" by auto
    with False show ?thesis by (subst ListBatch_out.simps) auto
  qed
qed

lemma List_out_eq:
  "List_out vals count i out = Inr (out @ map SubscriberOf (drop i (take count vals)))"
proof (induction vals count i out rule: List_out.induct)
  case (1 vals count i out)
  show ?case
  proof (cases "i < length vals \<and> i < count")
    case True
    then have d: "drop i (take count vals) = vals ! i # drop (Suc i) (take count vals)"
      by (simp add: Cons_nth_drop_Suc [symmetric])
    from True 1 show ?thesis
      by (subst List_out.simps) (simp add: ToSubsciberV4_eq d)
  next
    case False
    then have "drop i (take count vals) = []" by auto
    with False show ?thesis by (subst List_out.simps) auto
  qed
qed

lemma batch_loop_break:
  assumes "BatchLookup m w cursor keys vals = (c, Some e, cursor', keys', vals')"
    and "errors_Is e ErrKeyNotExist"
  shows "batch_loop m w cursor keys vals count = Some (Inr (keys', vals', count + c))"
  using assms by (subst batch_loop.simps) simp

lemma batch_loop_abort:
  assumes "BatchLookup m w cursor keys vals = (c, Some e, cursor', keys', vals')"
    and "\<not> errors_Is e ErrKeyNotExist"
  shows "batch_loop m w cursor keys vals count = Some (Inl e)"
  using assms by (subst batch_loop.simps) simp

lemma batch_loop_continue:
  assumes "BatchLookup m w cursor keys vals = (c, None, cursor', keys', vals')"
  shows "batch_loop m w cursor keys vals count = batch_loop m w cursor' keys' vals' (count + c)"
  using assms by (subst batch_loop.simps) simp

lemma BatchLookup_parts:
  assumes "length keys = n" and "length vals = n"
  shows "\<exists>c keys' vals'.
           BatchLookup m w cursor keys vals =
             (c, fst (snd (Map_BatchFetch m cursor n w)), snd (snd (Map_BatchFetch m cursor n w)),
              keys', vals') \<and>
           length keys' = n \<and> length vals' = n"
  using assms by (auto simp: BatchLookup_def Let_def split: prod.splits)

lemma batch_loop_first_failure:
  assumes "length keys = n" and "length vals = n"
    and "\<forall>i<j. fst (snd (Map_BatchFetch m (cursor_after m w n c i) n w)) = None"
    and "fst (snd (Map_BatchFetch m (cursor_after m w n c j) n w)) = Some e"
    and "\<not> errors_Is e ErrKeyNotExist"
  shows "batch_loop m w c keys vals count = Some (Inl e)"
  using assms
proof (induction j arbitrary: c keys vals count)
  case 0
  from BatchLookup_parts [OF "0.prems"(1,2), of m w c] "0.prems"(4)
  obtain c' keys' vals' cur' where "BatchLookup m w c keys vals = (c', Some e, cur', keys', vals')"
    by auto
  then show ?case using "0.prems"(5) by (rule batch_loop_abort)
next
  case (Suc j)
  from Suc.prems(3) have e0: "fst (snd (Map_BatchFetch m c n w)) = None"
    by (metis cursor_after.simps(1) zero_less_Suc)
  from BatchLookup_parts [OF Suc.prems(1,2), of m w c] e0
  obtain c' keys' vals' where
    b: "BatchLookup m w c keys vals = (c', None, snd (snd (Map_BatchFetch m c n w)), keys', vals')"
    and l: "length keys' = n" "length vals' = n"
    by auto
  have "\<forall>i<j. fst (snd (Map_BatchFetch m
          (cursor_after m w n (snd (snd (Map_BatchFetch m c n w))) i) n w)) = None"
    using Suc.prems(3) by (metis Suc_less_eq cursor_after.simps(2))
  moreover have "fst (snd (Map_BatchFetch m
          (cursor_after m w n (snd (snd (Map_BatchFetch m c n w))) j) n w)) = Some e"
    using Suc.prems(4) by simp
  ultimately have "batch_loop m w (snd (snd (Map_BatchFetch m c n w))) keys' vals' (count + c')
      = Some (Inl e)"
    using Suc.IH l Suc.prems(5) by blast
  then show ?case by (simp add: batch_loop_continue [OF b])
qed

subsection \<open>The address codec\<close>

text \<open>
  C7: for every valid IPv4 multicast address \<open>a\<close>, encoding \<open>a\<close> to the 4-byte group key
  and decoding that key yields \<open>a\<close> again: \<open>NewGroupV4KeyFromNetIPAddr\<close> succeeds with a
  key \<open>k\<close>, and \<open>k.ToNetIPAddr()\<close> is \<open>a\<close> with \<open>ok = true\<close>.
\<close>

theorem group_key_roundtrip:
  assumes "Is4 a" and "IsMulticast a"
  shows "\<exists>k. NewGroupV4KeyFromNetIPAddr a = Some (Inr k) \<and> GroupV4Key_ToNetIPAddr k = (a, True)"
proof -
  from Is4_As4 [OF assms(1)] obtain b where b: "a = Addr4 b" "As4 a = Some b" by blast
  have "NewGroupV4KeyFromNetIPAddr a = Some (Inr \<lparr>Group = b\<rparr>)"
    using assms b(2) by (simp add: NewGroupV4KeyFromNetIPAddr_def)
  moreover have "GroupV4Key_ToNetIPAddr \<lparr>Group = b\<rparr> = (a, True)"
    using b(1) by (simp add: GroupV4Key_ToNetIPAddr_eq GroupAddr_def)
  ultimately show ?thesis by blast
qed

theorem group_key_roundtrip_witness:
  "Is4 (Addr4 (224, 0, 0, 5)) \<and> IsMulticast (Addr4 (224, 0, 0, 5)) \<and>
   (\<exists>k. NewGroupV4KeyFromNetIPAddr (Addr4 (224, 0, 0, 5)) = Some (Inr k) \<and>
        GroupV4Key_ToNetIPAddr k = (Addr4 (224, 0, 0, 5), True))"
proof -
  have h1: "Is4 (Addr4 (224, 0, 0, 5))" by (simp add: Is4_def)
  have h2: "IsMulticast (Addr4 (224, 0, 0, 5))" by (simp add: IsMulticast_def Is4In6_def)
  from group_key_roundtrip [OF h1 h2] h1 h2 show ?thesis by blast
qed

text \<open>
  C8: for every address that is not IPv4 or not multicast, \<open>NewGroupV4KeyFromNetIPAddr\<close>
  fails with its invalid-address error (and it succeeds on every IPv4 multicast address);
  \<open>NewSubscriberV4KeyFromNetIPAddr\<close> fails with its invalid-address error exactly when the
  address is not IPv4: on every IPv4 address, multicast or not, it returns a key.
\<close>

theorem key_encoders_reject:
  "(\<not> Is4 a \<or> \<not> IsMulticast a \<longrightarrow>
      NewGroupV4KeyFromNetIPAddr a =
        Some (Inl (Errorf ''ip must be an IPv4 multicast address'' []))) \<and>
   (Is4 a \<and> IsMulticast a \<longrightarrow> (\<exists>k. NewGroupV4KeyFromNetIPAddr a = Some (Inr k))) \<and>
   (\<not> Is4 a \<longrightarrow> NewSubscriberV4KeyFromNetIPAddr a = Some (Inl (Errorf ''ip must be IPv4'' []))) \<and>
   (Is4 a \<longrightarrow> (\<exists>k. NewSubscriberV4KeyFromNetIPAddr a = Some (Inr k)))"
  using Is4_As4 [of a]
  by (auto simp: NewGroupV4KeyFromNetIPAddr_def NewSubscriberV4KeyFromNetIPAddr_def)

theorem key_encoders_reject_witness:
  "Is4 (Addr4 (10, 0, 0, 1)) \<and> \<not> IsMulticast (Addr4 (10, 0, 0, 1)) \<and>
   NewGroupV4KeyFromNetIPAddr (Addr4 (10, 0, 0, 1)) =
     Some (Inl (Errorf ''ip must be an IPv4 multicast address'' [])) \<and>
   (\<exists>k. NewSubscriberV4KeyFromNetIPAddr (Addr4 (10, 0, 0, 1)) = Some (Inr k)) \<and>
   \<not> Is4 (Addr6 (replicate 15 0 @ [1]) []) \<and>
   NewGroupV4KeyFromNetIPAddr (Addr6 (replicate 15 0 @ [1]) []) =
     Some (Inl (Errorf ''ip must be an IPv4 multicast address'' [])) \<and>
   NewSubscriberV4KeyFromNetIPAddr (Addr6 (replicate 15 0 @ [1]) []) =
     Some (Inl (Errorf ''ip must be IPv4'' []))"
proof -
  have h1: "Is4 (Addr4 (10, 0, 0, 1))" by (simp add: Is4_def)
  have h2: "\<not> IsMulticast (Addr4 (10, 0, 0, 1))" by (simp add: IsMulticast_def Is4In6_def)
  have h3: "\<not> Is4 (Addr6 (replicate 15 0 @ [1]) [])" by (simp add: Is4_def)
  show ?thesis
    using h1 h2 h3 key_encoders_reject [of "Addr4 (10, 0, 0, 1)"]
      key_encoders_reject [of "Addr6 (replicate 15 0 @ [1]) []"]
    by simp
qed

text \<open>
  C10: the key-decode failure branches of group enumeration are unreachable. Converting a
  4-byte group key to an address always reports \<open>ok = true\<close>, so the loop of
  \<open>ListIterator\<close> never returns from inside, the second loop of \<open>ListBatch\<close> never
  returns an error, and the two functions return what remains: \<open>ListIterator\<close> the
  decoded keys with the iterator's own error, \<open>ListBatch\<close> the error of a failed fetch or
  the decoded keys without an error.
\<close>

theorem group_key_decode_never_fails:
  "snd (GroupV4Key_ToNetIPAddr k) \<and>
   ListIterator_loop es out = Inr (out @ map (\<lambda>e. GroupAddr (fst e)) es) \<and>
   ListBatch_out keys count i out = Inr (out @ map GroupAddr (drop i (take count keys))) \<and>
   ListIterator m w =
     (map (\<lambda>e. GroupAddr (fst e)) (fst (Map_Iterate (Map m) w)), snd (Map_Iterate (Map m) w)) \<and>
   ListBatch m w =
     (case batch_loop (Map m) w 0 (replicate MaxGroups zeroGroupV4Key)
             (replicate MaxGroups zeroGroupV4Val) 0 of
        None \<Rightarrow> None
      | Some (Inl batchErr) \<Rightarrow> Some ([], Some batchErr)
      | Some (Inr (keys', vals', count')) \<Rightarrow> Some (map GroupAddr (take count' keys'), None))"
  by (simp add: GroupV4Key_ToNetIPAddr_eq ListIterator_loop_eq ListBatch_out_eq
      ListIterator_def ListBatch_def split: prod.splits option.splits sum.splits)

theorem group_key_decode_never_fails_witness:
  "snd (GroupV4Key_ToNetIPAddr \<lparr>Group = (0, 0, 0, 0)\<rparr>) \<and>
   ListIterator_loop [(\<lparr>Group = (224, 0, 0, 5)\<rparr>, \<lparr>FD = 7\<rparr>)] [] = Inr [Addr4 (224, 0, 0, 5)] \<and>
   ListBatch_out [\<lparr>Group = (224, 0, 0, 5)\<rparr>, \<lparr>Group = (0, 0, 0, 0)\<rparr>] 1 0 [] =
     Inr [Addr4 (224, 0, 0, 5)]"
  using group_key_decode_never_fails
    [of "\<lparr>Group = (0, 0, 0, 0)\<rparr>" "[(\<lparr>Group = (224, 0, 0, 5)\<rparr>, \<lparr>FD = 7\<rparr>)]" "[]"
        "[\<lparr>Group = (224, 0, 0, 5)\<rparr>, \<lparr>Group = (0, 0, 0, 0)\<rparr>]" 1 0
        "\<lparr>Map = kernel_outer, batchLookupSupported = True\<rparr>"
        "\<lparr>groups = [], subscribers = [], handles = []\<rparr>"]
  by (simp add: GroupAddr_def)

subsection \<open>SubscriberV4InnerMap.Lookup\<close>

text \<open>What \<open>SubscriberV4InnerMap.Insert\<close> stores: a flags byte of 0 or 1.\<close>

lemma SubscriberV4InnerMap_Insert_value:
  assumes "NewSubscriberV4KeyFromNetIPAddr (sub_SAddr s) = Some (Inr key)"
  shows "SubscriberV4InnerMap_Insert m s w =
           (case Map_Update m key
                   \<lparr>SourceAddr = SAddr key, Ifindex = sub_Ifindex s, Pad1 = 0, Pad2 = 0,
                    Flags = (if sub_IsRemote s then 1 else 0)\<rparr> UpdateNoExist w of
              (Some err, w') \<Rightarrow>
                Some (Some (Wrapf ''failed to insert multicast subscriber: %w'' [] err), w')
            | (None, w') \<Rightarrow> Some (None, w'))"
  using assms by (simp add: SubscriberV4InnerMap_Insert_def SubscriberRemote_def Let_def)

text \<open>
  C4, as stated, fails: a stored flags byte with bit 0 clear and bit 1 set (the value 2)
  decodes to a remote subscriber.
\<close>

theorem lookup_flags_bit0_counterexample:
  "\<not> bit (2 :: 8 word) 0 \<and>
   SubscriberV4InnerMap_Lookup (kernel_inner 7) (Addr4 (192, 168, 1, 10))
     \<lparr>groups = [],
      subscribers =
        [(\<lparr>SAddr = (192, 168, 1, 10)\<rparr>,
          \<lparr>SourceAddr = (192, 168, 1, 10), Ifindex = 7, Pad1 = 0, Pad2 = 0, Flags = 2\<rparr>)],
      handles = [7]\<rparr> =
     Some (Inr \<lparr>sub_SAddr = Addr4 (192, 168, 1, 10), sub_Ifindex = 7, sub_IsRemote = True\<rparr>)"
  by (simp add: SubscriberV4InnerMap_Lookup_def NewSubscriberV4KeyFromNetIPAddr_def Is4_def
      As4_def kernel_inner_def table_Lookup_def ToSubsciberV4_eq SubscriberOf_def)

text \<open>
  C4, amended: for every stored subscriber value, \<open>SubscriberV4InnerMap.Lookup\<close> returns
  the record with the stored source address and interface index, marked remote exactly when
  the flags byte is not zero: every flag bit is read, not bit 0 alone. On the flags bytes 0
  and 1 this is the value of bit 0.
\<close>

theorem lookup_remote_iff_flags_nonzero:
  assumes "NewSubscriberV4KeyFromNetIPAddr Src = Some (Inr key)"
    and "Map_Lookup m key w = Inr val"
  shows "\<exists>sub. SubscriberV4InnerMap_Lookup m Src w = Some (Inr sub) \<and>
           sub_SAddr sub = Addr4 (SourceAddr val) \<and>
           sub_Ifindex sub = Ifindex val \<and>
           (sub_IsRemote sub \<longleftrightarrow> Flags val \<noteq> 0) \<and>
           (Flags val = 0 \<or> Flags val = 1 \<longrightarrow> (sub_IsRemote sub \<longleftrightarrow> bit (Flags val) 0))"
  using assms
  by (auto simp: SubscriberV4InnerMap_Lookup_def ToSubsciberV4_eq SubscriberOf_def)

theorem lookup_remote_iff_flags_nonzero_witness:
  "NewSubscriberV4KeyFromNetIPAddr (Addr4 (192, 168, 1, 10)) =
     Some (Inr \<lparr>SAddr = (192, 168, 1, 10)\<rparr>) \<and>
   Map_Lookup (kernel_inner 7) \<lparr>SAddr = (192, 168, 1, 10)\<rparr>
     \<lparr>groups = [],
      subscribers =
        [(\<lparr>SAddr = (192, 168, 1, 10)\<rparr>,
          \<lparr>SourceAddr = (192, 168, 1, 10), Ifindex = 7, Pad1 = 0, Pad2 = 0, Flags = 1\<rparr>)],
      handles = [7]\<rparr> =
     Inr \<lparr>SourceAddr = (192, 168, 1, 10), Ifindex = 7, Pad1 = 0, Pad2 = 0, Flags = 1\<rparr> \<and>
   (\<exists>sub. SubscriberV4InnerMap_Lookup (kernel_inner 7) (Addr4 (192, 168, 1, 10))
      \<lparr>groups = [],
       subscribers =
         [(\<lparr>SAddr = (192, 168, 1, 10)\<rparr>,
           \<lparr>SourceAddr = (192, 168, 1, 10), Ifindex = 7, Pad1 = 0, Pad2 = 0, Flags = 1\<rparr>)],
       handles = [7]\<rparr> = Some (Inr sub) \<and>
      sub_SAddr sub = Addr4 (192, 168, 1, 10) \<and> sub_Ifindex sub = 7 \<and> sub_IsRemote sub)"
proof -
  let ?w = "\<lparr>groups = [],
      subscribers =
        [(\<lparr>SAddr = (192, 168, 1, 10)\<rparr>,
          \<lparr>SourceAddr = (192, 168, 1, 10), Ifindex = 7, Pad1 = 0, Pad2 = 0, Flags = 1\<rparr>)],
      handles = [7]\<rparr>"
  let ?v = "\<lparr>SourceAddr = (192, 168, 1, 10), Ifindex = 7, Pad1 = 0, Pad2 = 0, Flags = (1 :: 8 word)\<rparr>"
  have h1: "NewSubscriberV4KeyFromNetIPAddr (Addr4 (192, 168, 1, 10)) =
     Some (Inr \<lparr>SAddr = (192, 168, 1, 10)\<rparr>)"
    by (simp add: NewSubscriberV4KeyFromNetIPAddr_def Is4_def As4_def)
  have h2: "Map_Lookup (kernel_inner 7) \<lparr>SAddr = (192, 168, 1, 10)\<rparr> ?w = Inr ?v"
    by (simp add: kernel_inner_def table_Lookup_def)
  from lookup_remote_iff_flags_nonzero [OF h1 h2]
  obtain sub where "SubscriberV4InnerMap_Lookup (kernel_inner 7) (Addr4 (192, 168, 1, 10)) ?w = Some (Inr sub)"
    "sub_SAddr sub = Addr4 (192, 168, 1, 10)" "sub_Ifindex sub = 7" "sub_IsRemote sub"
    by auto
  with h1 h2 show ?thesis by blast
qed

subsection \<open>Delete\<close>

text \<open>
  C9, as stated, fails: when the table service fails a delete with the error \<open>Errno 1\<close>,
  \<open>GroupV4OuterMap.Delete\<close> and \<open>SubscriberV4InnerMap.Delete\<close> return that error bare;
  it is not an error that wraps another one and carries the address.
\<close>

theorem delete_error_bare_counterexample:
  "Delete \<lparr>Map = kernel_outer\<lparr>Map_Delete := \<lambda>k w. (Some (Errno 1), w)\<rparr>,
           batchLookupSupported = True\<rparr>
     (Addr4 (224, 0, 0, 5)) \<lparr>groups = [], subscribers = [], handles = []\<rparr> =
     Some (Some (Errno 1), \<lparr>groups = [], subscribers = [], handles = []\<rparr>) \<and>
   \<not> wraps_with_address (Errno 1) (Addr4 (224, 0, 0, 5)) \<and>
   SubscriberV4InnerMap_Delete ((kernel_inner 7)\<lparr>Map_Delete := \<lambda>k w. (Some (Errno 1), w)\<rparr>)
     (Addr4 (192, 168, 1, 10)) \<lparr>groups = [], subscribers = [], handles = []\<rparr> =
     Some (Some (Errno 1), \<lparr>groups = [], subscribers = [], handles = []\<rparr>) \<and>
   \<not> wraps_with_address (Errno 1) (Addr4 (192, 168, 1, 10))"
  by (simp add: Delete_def SubscriberV4InnerMap_Delete_def NewGroupV4KeyFromNetIPAddr_def
      NewSubscriberV4KeyFromNetIPAddr_def Is4_def IsMulticast_def Is4In6_def As4_def
      wraps_with_address_def)

text \<open>
  C9, amended: on an address that encodes to a key, \<open>GroupV4OuterMap.Delete\<close> and
  \<open>SubscriberV4InnerMap.Delete\<close> return exactly what the delete of the table service
  returns for that key, unchanged and unwrapped; on the table service of the specification
  that is the "not found" error \<open>ErrKeyNotExist\<close> when the key is absent.
\<close>

theorem delete_returns_service_error:
  "(NewGroupV4KeyFromNetIPAddr grp = Some (Inr key) \<longrightarrow>
      Delete m grp w = Some (Map_Delete (Map m) key w)) \<and>
   (NewSubscriberV4KeyFromNetIPAddr Src = Some (Inr skey) \<longrightarrow>
      SubscriberV4InnerMap_Delete sm Src w = Some (Map_Delete sm skey w)) \<and>
   (NewGroupV4KeyFromNetIPAddr grp = Some (Inr key) \<and> key \<notin> fst ` set (groups kw) \<longrightarrow>
      Delete \<lparr>Map = kernel_outer, batchLookupSupported = b\<rparr> grp kw =
        Some (Some ErrKeyNotExist, kw)) \<and>
   (NewSubscriberV4KeyFromNetIPAddr Src = Some (Inr skey) \<and>
    skey \<notin> fst ` set (subscribers kw) \<longrightarrow>
      SubscriberV4InnerMap_Delete (kernel_inner fd) Src kw = Some (Some ErrKeyNotExist, kw))"
  by (simp add: Delete_def SubscriberV4InnerMap_Delete_def kernel_outer_def kernel_inner_def
      table_Delete_def)

theorem delete_returns_service_error_witness:
  "NewGroupV4KeyFromNetIPAddr (Addr4 (224, 0, 0, 5)) = Some (Inr \<lparr>Group = (224, 0, 0, 5)\<rparr>) \<and>
   NewSubscriberV4KeyFromNetIPAddr (Addr4 (192, 168, 1, 10)) =
     Some (Inr \<lparr>SAddr = (192, 168, 1, 10)\<rparr>) \<and>
   \<lparr>Group = (224, 0, 0, 5)\<rparr> \<notin>
     fst ` set (groups \<lparr>groups = [(\<lparr>Group = (224, 0, 0, 6)\<rparr>, \<lparr>FD = 5\<rparr>)],
                         subscribers = [], handles = []\<rparr>) \<and>
   \<lparr>SAddr = (192, 168, 1, 10)\<rparr> \<notin>
     fst ` set (subscribers \<lparr>groups = [(\<lparr>Group = (224, 0, 0, 6)\<rparr>, \<lparr>FD = 5\<rparr>)],
                              subscribers = [], handles = []\<rparr>) \<and>
   Delete \<lparr>Map = kernel_outer, batchLookupSupported = True\<rparr> (Addr4 (224, 0, 0, 5))
     \<lparr>groups = [(\<lparr>Group = (224, 0, 0, 6)\<rparr>, \<lparr>FD = 5\<rparr>)], subscribers = [], handles = []\<rparr> =
     Some (Some ErrKeyNotExist,
           \<lparr>groups = [(\<lparr>Group = (224, 0, 0, 6)\<rparr>, \<lparr>FD = 5\<rparr>)], subscribers = [],
            handles = []\<rparr>) \<and>
   SubscriberV4InnerMap_Delete (kernel_inner 7) (Addr4 (192, 168, 1, 10))
     \<lparr>groups = [(\<lparr>Group = (224, 0, 0, 6)\<rparr>, \<lparr>FD = 5\<rparr>)], subscribers = [], handles = []\<rparr> =
     Some (Some ErrKeyNotExist,
           \<lparr>groups = [(\<lparr>Group = (224, 0, 0, 6)\<rparr>, \<lparr>FD = 5\<rparr>)], subscribers = [],
            handles = []\<rparr>)"
proof -
  have h1: "NewGroupV4KeyFromNetIPAddr (Addr4 (224, 0, 0, 5)) =
      Some (Inr \<lparr>Group = (224, 0, 0, 5)\<rparr>)"
    by (simp add: NewGroupV4KeyFromNetIPAddr_def Is4_def IsMulticast_def Is4In6_def As4_def)
  have h2: "NewSubscriberV4KeyFromNetIPAddr (Addr4 (192, 168, 1, 10)) =
      Some (Inr \<lparr>SAddr = (192, 168, 1, 10)\<rparr>)"
    by (simp add: NewSubscriberV4KeyFromNetIPAddr_def Is4_def As4_def)
  show ?thesis
    using h1 h2
      delete_returns_service_error
        [of "Addr4 (224, 0, 0, 5)" "\<lparr>Group = (224, 0, 0, 5)\<rparr>"
            "\<lparr>Map = kernel_outer, batchLookupSupported = True\<rparr>"
            "\<lparr>groups = [(\<lparr>Group = (224, 0, 0, 6)\<rparr>, \<lparr>FD = 5\<rparr>)], subscribers = [],
              handles = []\<rparr>"
            "Addr4 (192, 168, 1, 10)" "\<lparr>SAddr = (192, 168, 1, 10)\<rparr>" "kernel_inner 7"
            "\<lparr>groups = [(\<lparr>Group = (224, 0, 0, 6)\<rparr>, \<lparr>FD = 5\<rparr>)], subscribers = [],
              handles = []\<rparr>" True 7]
    by (simp add: kernel_outer_def kernel_inner_def table_Delete_def)
qed

subsection \<open>GroupV4OuterMap.Insert\<close>

text \<open>
  C2, as stated, fails in its second half: when registering the group fails (the key is
  already present) and releasing the new inner table fails too, with \<open>Errno 9\<close>,
  \<open>Insert\<close> returns the registration error alone; the error of the release is not in it.
\<close>

theorem insert_drops_close_error_counterexample:
  "Insert ((kernel_inner 7)
             \<lparr>Map_Close := \<lambda>w. (Some (Errno 9), w\<lparr>handles := remove1 7 (handles w)\<rparr>)\<rparr>)
     \<lparr>Map = kernel_outer, batchLookupSupported = True\<rparr> (Addr4 (224, 0, 0, 5))
     \<lparr>groups = [(\<lparr>Group = (224, 0, 0, 5)\<rparr>, \<lparr>FD = 5\<rparr>)], subscribers = [], handles = [5]\<rparr> =
     Some (Some (Wrapf ''failed to create new multicast group entry: %w'' [] ErrKeyExist),
           \<lparr>groups = [(\<lparr>Group = (224, 0, 0, 5)\<rparr>, \<lparr>FD = 5\<rparr>)], subscribers = [],
            handles = [5]\<rparr>) \<and>
   fst (Map_Close ((kernel_inner 7)
             \<lparr>Map_Close := \<lambda>w. (Some (Errno 9), w\<lparr>handles := remove1 7 (handles w)\<rparr>)\<rparr>)
          \<lparr>groups = [(\<lparr>Group = (224, 0, 0, 5)\<rparr>, \<lparr>FD = 5\<rparr>)], subscribers = [],
           handles = [7, 5]\<rparr>) = Some (Errno 9) \<and>
   \<not> errors_Is (Wrapf ''failed to create new multicast group entry: %w'' [] ErrKeyExist)
        (Errno 9)"
  by (simp add: Insert_def newSubscriberV4InnerMap_def NewGroupV4KeyFromNetIPAddr_def Is4_def
      IsMulticast_def Is4In6_def As4_def kernel_inner_def kernel_outer_def table_Update_def)

text \<open>
  C2, amended: whenever \<open>Insert\<close> has opened a fresh inner map and the insert-if-absent
  into the outer map fails with \<open>err\<close>, \<open>Insert\<close> closes the inner map (the state of the
  table service it returns is the one \<open>Close\<close> leaves, after the failed update) and returns
  \<open>err\<close> wrapped in its own message; what \<open>Close\<close> returns is ignored.
\<close>

theorem insert_releases_inner_map:
  assumes "NewGroupV4KeyFromNetIPAddr grp = Some (Inr key)"
    and "Map_OpenOrCreate NewMap w = (None, w1)"
    and "Map_Update (Map m) key \<lparr>FD = word_of_int (Map_FD NewMap w1)\<rparr> UpdateNoExist w1 =
           (Some err, w2)"
  shows "Insert NewMap m grp w =
           Some (Some (Wrapf ''failed to create new multicast group entry: %w'' [] err),
                 snd (Map_Close NewMap w2))"
  using assms
  by (simp add: Insert_def newSubscriberV4InnerMap_def split: prod.splits)

theorem insert_releases_inner_map_witness:
  "NewGroupV4KeyFromNetIPAddr (Addr4 (224, 0, 0, 5)) = Some (Inr \<lparr>Group = (224, 0, 0, 5)\<rparr>) \<and>
   Map_OpenOrCreate (kernel_inner 7)
     \<lparr>groups = [(\<lparr>Group = (224, 0, 0, 5)\<rparr>, \<lparr>FD = 5\<rparr>)], subscribers = [], handles = [5]\<rparr> =
     (None, \<lparr>groups = [(\<lparr>Group = (224, 0, 0, 5)\<rparr>, \<lparr>FD = 5\<rparr>)], subscribers = [],
             handles = [7, 5]\<rparr>) \<and>
   Map_Update kernel_outer \<lparr>Group = (224, 0, 0, 5)\<rparr> \<lparr>FD = 7\<rparr> UpdateNoExist
     \<lparr>groups = [(\<lparr>Group = (224, 0, 0, 5)\<rparr>, \<lparr>FD = 5\<rparr>)], subscribers = [], handles = [7, 5]\<rparr> =
     (Some ErrKeyExist,
      \<lparr>groups = [(\<lparr>Group = (224, 0, 0, 5)\<rparr>, \<lparr>FD = 5\<rparr>)], subscribers = [],
       handles = [7, 5]\<rparr>) \<and>
   Insert (kernel_inner 7) \<lparr>Map = kernel_outer, batchLookupSupported = True\<rparr>
     (Addr4 (224, 0, 0, 5))
     \<lparr>groups = [(\<lparr>Group = (224, 0, 0, 5)\<rparr>, \<lparr>FD = 5\<rparr>)], subscribers = [], handles = [5]\<rparr> =
     Some (Some (Wrapf ''failed to create new multicast group entry: %w'' [] ErrKeyExist),
           \<lparr>groups = [(\<lparr>Group = (224, 0, 0, 5)\<rparr>, \<lparr>FD = 5\<rparr>)], subscribers = [],
            handles = [5]\<rparr>)"
proof -
  let ?w = "\<lparr>groups = [(\<lparr>Group = (224, 0, 0, 5)\<rparr>, \<lparr>FD = 5\<rparr>)], subscribers = [],
             handles = [5 :: int]\<rparr>"
  let ?w1 = "\<lparr>groups = [(\<lparr>Group = (224, 0, 0, 5)\<rparr>, \<lparr>FD = 5\<rparr>)], subscribers = [],
              handles = [7, 5 :: int]\<rparr>"
  have h1: "NewGroupV4KeyFromNetIPAddr (Addr4 (224, 0, 0, 5)) =
      Some (Inr \<lparr>Group = (224, 0, 0, 5)\<rparr>)"
    by (simp add: NewGroupV4KeyFromNetIPAddr_def Is4_def IsMulticast_def Is4In6_def As4_def)
  have h2: "Map_OpenOrCreate (kernel_inner 7) ?w = (None, ?w1)"
    by (simp add: kernel_inner_def)
  have h3: "Map_Update (Map \<lparr>Map = kernel_outer, batchLookupSupported = True\<rparr>)
      \<lparr>Group = (224, 0, 0, 5)\<rparr> \<lparr>FD = word_of_int (Map_FD (kernel_inner 7) ?w1)\<rparr>
      UpdateNoExist ?w1 = (Some ErrKeyExist, ?w1)"
    by (simp add: kernel_inner_def kernel_outer_def table_Update_def)
  have h3': "Map_Update kernel_outer \<lparr>Group = (224, 0, 0, 5)\<rparr> \<lparr>FD = 7\<rparr> UpdateNoExist ?w1 =
      (Some ErrKeyExist, ?w1)"
    by (simp add: kernel_outer_def table_Update_def)
  have c: "snd (Map_Close (kernel_inner 7) ?w1) = ?w"
    by (simp add: kernel_inner_def)
  from insert_releases_inner_map [OF h1 h2 h3] c h1 h2 h3' show ?thesis by simp
qed

subsection \<open>Enumeration\<close>

lemma BatchLookup_fetch:
  assumes "Map_BatchFetch m cursor n w = (es, err, cursor')"
    and "length keys = n" and "length vals = n" and "length es \<le> n"
  shows "BatchLookup m w cursor keys vals =
           (length es, err, cursor', map fst es @ drop (length es) keys,
            map snd es @ drop (length es) vals)"
  using assms by (simp add: BatchLookup_def Let_def)

text \<open>
  C5 fails on the code. The outer table holds the three groups 224.0.0.1, 224.0.0.2 and
  224.0.0.3, and the table service hands over at most two entries with one bulk fetch. The
  iterator strategy of \<open>GroupV4OuterMap.List\<close> returns the three addresses. The batch
  strategy needs two fetches, the second of which stores its entry over the first entry of
  the first, and returns 224.0.0.3, 224.0.0.2 and the zero address: the two strategies
  disagree on the same table, and the batch strategy does not return the addresses of the
  table.
\<close>

theorem list_strategies_disagree:
  "List \<lparr>Map = kernel_outer_per 2, batchLookupSupported = False\<rparr>
     \<lparr>groups = [(\<lparr>Group = (224, 0, 0, 1)\<rparr>, \<lparr>FD = 5\<rparr>), (\<lparr>Group = (224, 0, 0, 2)\<rparr>, \<lparr>FD = 6\<rparr>),
                 (\<lparr>Group = (224, 0, 0, 3)\<rparr>, \<lparr>FD = 7\<rparr>)],
      subscribers = [], handles = []\<rparr> =
     Some ([Addr4 (224, 0, 0, 1), Addr4 (224, 0, 0, 2), Addr4 (224, 0, 0, 3)], None) \<and>
   List \<lparr>Map = kernel_outer_per 2, batchLookupSupported = True\<rparr>
     \<lparr>groups = [(\<lparr>Group = (224, 0, 0, 1)\<rparr>, \<lparr>FD = 5\<rparr>), (\<lparr>Group = (224, 0, 0, 2)\<rparr>, \<lparr>FD = 6\<rparr>),
                 (\<lparr>Group = (224, 0, 0, 3)\<rparr>, \<lparr>FD = 7\<rparr>)],
      subscribers = [], handles = []\<rparr> =
     Some ([Addr4 (224, 0, 0, 3), Addr4 (224, 0, 0, 2), Addr4 (0, 0, 0, 0)], None)"
proof -
  let ?g1 = "(\<lparr>Group = (224, 0, 0, 1)\<rparr>, \<lparr>FD = 5\<rparr>)"
  let ?g2 = "(\<lparr>Group = (224, 0, 0, 2)\<rparr>, \<lparr>FD = 6\<rparr>)"
  let ?g3 = "(\<lparr>Group = (224, 0, 0, 3)\<rparr>, \<lparr>FD = 7\<rparr>)"
  let ?w = "\<lparr>groups = [?g1, ?g2, ?g3], subscribers = [], handles = [] :: int list\<rparr>"
  let ?m = "kernel_outer_per 2"
  let ?k0 = "replicate MaxGroups zeroGroupV4Key"
  let ?v0 = "replicate MaxGroups zeroGroupV4Val"
  let ?k1 = "[fst ?g1, fst ?g2] @ replicate 1022 zeroGroupV4Key"
  let ?v1 = "[snd ?g1, snd ?g2] @ replicate 1022 zeroGroupV4Val"
  let ?k2 = "[fst ?g3, fst ?g2] @ replicate 1022 zeroGroupV4Key"
  let ?v2 = "[snd ?g3, snd ?g2] @ replicate 1022 zeroGroupV4Val"
  have it: "ListIterator \<lparr>Map = ?m, batchLookupSupported = False\<rparr> ?w =
      ([Addr4 (224, 0, 0, 1), Addr4 (224, 0, 0, 2), Addr4 (224, 0, 0, 3)], None)"
    by (simp add: ListIterator_def ListIterator_loop_eq GroupAddr_def kernel_outer_per_def
        kernel_outer_def)
  have f1: "Map_BatchFetch ?m 0 1024 ?w = ([?g1, ?g2], None, 2)"
    by (simp add: kernel_outer_per_def table_BatchFetch_def)
  have f2: "Map_BatchFetch ?m 2 1024 ?w = ([?g3], Some ErrKeyNotExist, 4)"
    by (simp add: kernel_outer_per_def table_BatchFetch_def)
  have b1: "BatchLookup ?m ?w 0 ?k0 ?v0 = (2, None, 2, ?k1, ?v1)"
    by (subst BatchLookup_fetch [OF f1]) (simp_all add: MaxGroups_def)
  have b2: "BatchLookup ?m ?w 2 ?k1 ?v1 = (1, Some ErrKeyNotExist, 4, ?k2, ?v2)"
    by (subst BatchLookup_fetch [OF f2]) simp_all
  have "batch_loop ?m ?w 0 ?k0 ?v0 0 = batch_loop ?m ?w 2 ?k1 ?v1 (0 + 2)"
    by (rule batch_loop_continue [OF b1])
  also have "\<dots> = Some (Inr (?k2, ?v2, 0 + 2 + 1))"
    by (rule batch_loop_break [OF b2]) simp
  finally have l: "batch_loop ?m ?w 0 ?k0 ?v0 0 = Some (Inr (?k2, ?v2, 3))"
    by simp
  have b: "ListBatch \<lparr>Map = ?m, batchLookupSupported = True\<rparr> ?w =
     Some ([Addr4 (224, 0, 0, 3), Addr4 (224, 0, 0, 2), Addr4 (0, 0, 0, 0)], None)"
    unfolding ListBatch_def Let_def GroupV4OuterMap.simps l
    by (simp add: ListBatch_out_eq GroupAddr_def zeroGroupV4Key_def)
  from it b show ?thesis by (simp add: List_def)
qed

lemma BatchLookup_scripted:
  assumes "Map_BatchFetch m = scripted_BatchFetch script"
    and "cursor < length script"
    and "length keys = n" and "length vals = n"
    and "length (fst (script ! cursor)) \<le> n"
  shows "BatchLookup m w cursor keys vals =
           (length (fst (script ! cursor)), snd (script ! cursor), cursor + 1,
            map fst (fst (script ! cursor)) @ drop (length (fst (script ! cursor))) keys,
            map snd (fst (script ! cursor)) @ drop (length (fst (script ! cursor))) vals)"
  using assms by (simp add: BatchLookup_def scripted_BatchFetch_def Let_def)

text \<open>
  C1 fails on the code. The table service answers the first bulk fetch with two entries
  and no error, and the second with one entry and "no more entries". Every fetch stores its
  entries at the start of the same buffers, and the result is read from the first
  \<open>count = 3\<close> buffer elements: the entry of the last fetch, the second entry of the first
  fetch and a zero element. The first entry is lost, for \<open>SubscriberV4InnerMap.List\<close> and
  for \<open>ListBatch\<close>; the concatenation of the fetched entries would hold all three.
\<close>

theorem list_overwrites_earlier_fetch:
  "SubscriberV4InnerMap_List
     ((kernel_inner 7)\<lparr>Map_BatchFetch := scripted_BatchFetch
        [([(\<lparr>SAddr = (10, 0, 0, 1)\<rparr>,
            \<lparr>SourceAddr = (10, 0, 0, 1), Ifindex = 1, Pad1 = 0, Pad2 = 0, Flags = 0\<rparr>),
           (\<lparr>SAddr = (10, 0, 0, 2)\<rparr>,
            \<lparr>SourceAddr = (10, 0, 0, 2), Ifindex = 2, Pad1 = 0, Pad2 = 0, Flags = 0\<rparr>)], None),
         ([(\<lparr>SAddr = (10, 0, 0, 3)\<rparr>,
            \<lparr>SourceAddr = (10, 0, 0, 3), Ifindex = 3, Pad1 = 0, Pad2 = 0, Flags = 0\<rparr>)],
          Some ErrKeyNotExist)]\<rparr>)
     \<lparr>groups = [], subscribers = [], handles = [7]\<rparr> =
     Some ([\<lparr>sub_SAddr = Addr4 (10, 0, 0, 3), sub_Ifindex = 3, sub_IsRemote = False\<rparr>,
            \<lparr>sub_SAddr = Addr4 (10, 0, 0, 2), sub_Ifindex = 2, sub_IsRemote = False\<rparr>,
            \<lparr>sub_SAddr = Addr4 (0, 0, 0, 0), sub_Ifindex = 0, sub_IsRemote = False\<rparr>], None) \<and>
   ListBatch
     \<lparr>Map = kernel_outer\<lparr>Map_BatchFetch := scripted_BatchFetch
        [([(\<lparr>Group = (224, 0, 0, 1)\<rparr>, \<lparr>FD = 5\<rparr>), (\<lparr>Group = (224, 0, 0, 2)\<rparr>, \<lparr>FD = 6\<rparr>)],
          None),
         ([(\<lparr>Group = (224, 0, 0, 3)\<rparr>, \<lparr>FD = 7\<rparr>)], Some ErrKeyNotExist)]\<rparr>,
      batchLookupSupported = True\<rparr>
     \<lparr>groups = [], subscribers = [], handles = []\<rparr> =
     Some ([Addr4 (224, 0, 0, 3), Addr4 (224, 0, 0, 2), Addr4 (0, 0, 0, 0)], None)"
proof -
  let ?w = "\<lparr>groups = [], subscribers = [], handles = [7 :: int]\<rparr>"
  let ?s1 = "(\<lparr>SAddr = (10, 0, 0, 1)\<rparr>,
            \<lparr>SourceAddr = (10, 0, 0, 1), Ifindex = 1, Pad1 = 0, Pad2 = 0, Flags = 0\<rparr>)"
  let ?s2 = "(\<lparr>SAddr = (10, 0, 0, 2)\<rparr>,
            \<lparr>SourceAddr = (10, 0, 0, 2), Ifindex = 2, Pad1 = 0, Pad2 = 0, Flags = 0\<rparr>)"
  let ?s3 = "(\<lparr>SAddr = (10, 0, 0, 3)\<rparr>,
            \<lparr>SourceAddr = (10, 0, 0, 3), Ifindex = 3, Pad1 = 0, Pad2 = 0, Flags = 0\<rparr>)"
  let ?script = "[([?s1, ?s2], None), ([?s3], Some ErrKeyNotExist)]"
  let ?m = "(kernel_inner 7)\<lparr>Map_BatchFetch := scripted_BatchFetch ?script\<rparr>"
  let ?k0 = "replicate MaxSubscribers zeroSubscriberV4Key"
  let ?v0 = "replicate MaxSubscribers zeroSubscriberV4Val"
  let ?k1 = "[fst ?s1, fst ?s2] @ replicate 1022 zeroSubscriberV4Key"
  let ?v1 = "[snd ?s1, snd ?s2] @ replicate 1022 zeroSubscriberV4Val"
  let ?k2 = "[fst ?s3, fst ?s2] @ replicate 1022 zeroSubscriberV4Key"
  let ?v2 = "[snd ?s3, snd ?s2] @ replicate 1022 zeroSubscriberV4Val"
  have m: "Map_BatchFetch ?m = scripted_BatchFetch ?script" by simp
  have b1: "BatchLookup ?m ?w 0 ?k0 ?v0 = (2, None, 1, ?k1, ?v1)"
    by (subst BatchLookup_scripted [OF m, where n = 1024]) (simp_all add: MaxSubscribers_def)
  have b2: "BatchLookup ?m ?w 1 ?k1 ?v1 = (1, Some ErrKeyNotExist, 2, ?k2, ?v2)"
    by (subst BatchLookup_scripted [OF m, where n = 1024]) simp_all
  have "batch_loop ?m ?w 0 ?k0 ?v0 0 = batch_loop ?m ?w 1 ?k1 ?v1 (0 + 2)"
    by (rule batch_loop_continue [OF b1])
  also have "\<dots> = Some (Inr (?k2, ?v2, 0 + 2 + 1))"
    by (rule batch_loop_break [OF b2]) simp
  finally have l: "batch_loop ?m ?w 0 ?k0 ?v0 0 = Some (Inr (?k2, ?v2, 3))"
    by simp
  have s: "SubscriberV4InnerMap_List ?m ?w =
     Some ([\<lparr>sub_SAddr = Addr4 (10, 0, 0, 3), sub_Ifindex = 3, sub_IsRemote = False\<rparr>,
            \<lparr>sub_SAddr = Addr4 (10, 0, 0, 2), sub_Ifindex = 2, sub_IsRemote = False\<rparr>,
            \<lparr>sub_SAddr = Addr4 (0, 0, 0, 0), sub_Ifindex = 0, sub_IsRemote = False\<rparr>], None)"
    unfolding SubscriberV4InnerMap_List_def Let_def l
    by (simp add: List_out_eq SubscriberOf_def zeroSubscriberV4Val_def)
  let ?gw = "\<lparr>groups = [], subscribers = [], handles = [] :: int list\<rparr>"
  let ?g1 = "(\<lparr>Group = (224, 0, 0, 1)\<rparr>, \<lparr>FD = 5\<rparr>)"
  let ?g2 = "(\<lparr>Group = (224, 0, 0, 2)\<rparr>, \<lparr>FD = 6\<rparr>)"
  let ?g3 = "(\<lparr>Group = (224, 0, 0, 3)\<rparr>, \<lparr>FD = 7\<rparr>)"
  let ?gscript = "[([?g1, ?g2], None), ([?g3], Some ErrKeyNotExist)]"
  let ?gm = "kernel_outer\<lparr>Map_BatchFetch := scripted_BatchFetch ?gscript\<rparr>"
  let ?gk0 = "replicate MaxGroups zeroGroupV4Key"
  let ?gv0 = "replicate MaxGroups zeroGroupV4Val"
  let ?gk1 = "[fst ?g1, fst ?g2] @ replicate 1022 zeroGroupV4Key"
  let ?gv1 = "[snd ?g1, snd ?g2] @ replicate 1022 zeroGroupV4Val"
  let ?gk2 = "[fst ?g3, fst ?g2] @ replicate 1022 zeroGroupV4Key"
  let ?gv2 = "[snd ?g3, snd ?g2] @ replicate 1022 zeroGroupV4Val"
  have gm: "Map_BatchFetch ?gm = scripted_BatchFetch ?gscript" by simp
  have gb1: "BatchLookup ?gm ?gw 0 ?gk0 ?gv0 = (2, None, 1, ?gk1, ?gv1)"
    by (subst BatchLookup_scripted [OF gm, where n = 1024]) (simp_all add: MaxGroups_def)
  have gb2: "BatchLookup ?gm ?gw 1 ?gk1 ?gv1 = (1, Some ErrKeyNotExist, 2, ?gk2, ?gv2)"
    by (subst BatchLookup_scripted [OF gm, where n = 1024]) simp_all
  have "batch_loop ?gm ?gw 0 ?gk0 ?gv0 0 = batch_loop ?gm ?gw 1 ?gk1 ?gv1 (0 + 2)"
    by (rule batch_loop_continue [OF gb1])
  also have "\<dots> = Some (Inr (?gk2, ?gv2, 0 + 2 + 1))"
    by (rule batch_loop_break [OF gb2]) simp
  finally have gl: "batch_loop ?gm ?gw 0 ?gk0 ?gv0 0 = Some (Inr (?gk2, ?gv2, 3))"
    by simp
  have g: "ListBatch \<lparr>Map = ?gm, batchLookupSupported = True\<rparr> ?gw =
     Some ([Addr4 (224, 0, 0, 3), Addr4 (224, 0, 0, 2), Addr4 (0, 0, 0, 0)], None)"
    unfolding ListBatch_def Let_def GroupV4OuterMap.simps gl
    by (simp add: ListBatch_out_eq GroupAddr_def zeroGroupV4Key_def)
  from s g show ?thesis by simp
qed

text \<open>
  C3, as stated, fails for the batch strategy: the first bulk fetch delivers two entries
  without an error, the second fails with \<open>Errno 1\<close>; \<open>ListBatch\<close> and
  \<open>SubscriberV4InnerMap.List\<close> return the error with no entry at all, not the two entries
  fetched before it.
\<close>

theorem batch_list_drops_partial_results_counterexample:
  "ListBatch
     \<lparr>Map = kernel_outer\<lparr>Map_BatchFetch := scripted_BatchFetch
        [([(\<lparr>Group = (224, 0, 0, 1)\<rparr>, \<lparr>FD = 5\<rparr>), (\<lparr>Group = (224, 0, 0, 2)\<rparr>, \<lparr>FD = 6\<rparr>)],
          None),
         ([], Some (Errno 1))]\<rparr>,
      batchLookupSupported = True\<rparr>
     \<lparr>groups = [], subscribers = [], handles = []\<rparr> = Some ([], Some (Errno 1)) \<and>
   SubscriberV4InnerMap_List
     ((kernel_inner 7)\<lparr>Map_BatchFetch := scripted_BatchFetch
        [([(\<lparr>SAddr = (10, 0, 0, 1)\<rparr>,
            \<lparr>SourceAddr = (10, 0, 0, 1), Ifindex = 1, Pad1 = 0, Pad2 = 0, Flags = 0\<rparr>),
           (\<lparr>SAddr = (10, 0, 0, 2)\<rparr>,
            \<lparr>SourceAddr = (10, 0, 0, 2), Ifindex = 2, Pad1 = 0, Pad2 = 0, Flags = 0\<rparr>)], None),
         ([], Some (Errno 1))]\<rparr>)
     \<lparr>groups = [], subscribers = [], handles = [7]\<rparr> = Some ([], Some (Errno 1))"
proof -
  let ?gw = "\<lparr>groups = [], subscribers = [], handles = [] :: int list\<rparr>"
  let ?gscript = "[([(\<lparr>Group = (224, 0, 0, 1)\<rparr>, \<lparr>FD = 5\<rparr>),
                     (\<lparr>Group = (224, 0, 0, 2)\<rparr>, \<lparr>FD = 6\<rparr>)], None),
                   ([], Some (Errno 1))]"
  let ?gm = "kernel_outer\<lparr>Map_BatchFetch := scripted_BatchFetch ?gscript\<rparr>"
  have "batch_loop ?gm ?gw 0 (replicate MaxGroups zeroGroupV4Key)
          (replicate MaxGroups zeroGroupV4Val) 0 = Some (Inl (Errno 1))"
    by (rule batch_loop_first_failure [where n = MaxGroups and j = "Suc 0"])
       (simp_all add: scripted_BatchFetch_def)
  then have g: "ListBatch \<lparr>Map = ?gm, batchLookupSupported = True\<rparr> ?gw =
      Some ([], Some (Errno 1))"
    by (simp add: ListBatch_def)
  let ?w = "\<lparr>groups = [], subscribers = [], handles = [7 :: int]\<rparr>"
  let ?script = "[([(\<lparr>SAddr = (10, 0, 0, 1)\<rparr>,
            \<lparr>SourceAddr = (10, 0, 0, 1), Ifindex = 1, Pad1 = 0, Pad2 = 0, Flags = 0\<rparr>),
           (\<lparr>SAddr = (10, 0, 0, 2)\<rparr>,
            \<lparr>SourceAddr = (10, 0, 0, 2), Ifindex = 2, Pad1 = 0, Pad2 = 0, Flags = 0\<rparr>)], None),
         ([], Some (Errno 1))]"
  let ?m = "(kernel_inner 7)\<lparr>Map_BatchFetch := scripted_BatchFetch ?script\<rparr>"
  have "batch_loop ?m ?w 0 (replicate MaxSubscribers zeroSubscriberV4Key)
          (replicate MaxSubscribers zeroSubscriberV4Val) 0 = Some (Inl (Errno 1))"
    by (rule batch_loop_first_failure [where n = MaxSubscribers and j = "Suc 0"])
       (simp_all add: scripted_BatchFetch_def)
  then have s: "SubscriberV4InnerMap_List ?m ?w = Some ([], Some (Errno 1))"
    by (simp add: SubscriberV4InnerMap_List_def)
  from g s show ?thesis by simp
qed

text \<open>
  C3, amended: every enumeration stops at the first fetch step that fails with an error
  other than "no more entries", and does not fetch again. \<open>ListIterator\<close> returns the
  addresses collected so far together with the error of the iterator. \<open>ListBatch\<close> and
  \<open>SubscriberV4InnerMap.List\<close> return the error of the first failing bulk fetch, whatever
  the table service would answer afterwards, and no entries: what earlier fetches delivered
  is not returned.
\<close>

theorem enumeration_stops_at_first_error:
  "(Map_Iterate (Map m) w = (entries, iterErr) \<longrightarrow>
      ListIterator m w = (map (\<lambda>e. GroupAddr (fst e)) entries, iterErr) \<and>
      List (m\<lparr>batchLookupSupported := False\<rparr>) w =
        Some (map (\<lambda>e. GroupAddr (fst e)) entries, iterErr)) \<and>
   ((\<forall>i<j. fetch_error (Map m) w MaxGroups i = None) \<and>
    fetch_error (Map m) w MaxGroups j = Some e \<and> \<not> errors_Is e ErrKeyNotExist \<longrightarrow>
      ListBatch m w = Some ([], Some e) \<and>
      List (m\<lparr>batchLookupSupported := True\<rparr>) w = Some ([], Some e)) \<and>
   ((\<forall>i<j. fetch_error sm w MaxSubscribers i = None) \<and>
    fetch_error sm w MaxSubscribers j = Some e \<and> \<not> errors_Is e ErrKeyNotExist \<longrightarrow>
      SubscriberV4InnerMap_List sm w = Some ([], Some e))"
proof (intro conjI impI)
  assume "Map_Iterate (Map m) w = (entries, iterErr)"
  then show it: "ListIterator m w = (map (\<lambda>e. GroupAddr (fst e)) entries, iterErr)"
    by (simp add: ListIterator_def ListIterator_loop_eq)
  then show "List (m\<lparr>batchLookupSupported := False\<rparr>) w =
      Some (map (\<lambda>e. GroupAddr (fst e)) entries, iterErr)"
    by (simp add: List_def ListIterator_def)
next
  assume a: "(\<forall>i<j. fetch_error (Map m) w MaxGroups i = None) \<and>
    fetch_error (Map m) w MaxGroups j = Some e \<and> \<not> errors_Is e ErrKeyNotExist"
  then have "batch_loop (Map m) w 0 (replicate MaxGroups zeroGroupV4Key)
      (replicate MaxGroups zeroGroupV4Val) 0 = Some (Inl e)"
    by (intro batch_loop_first_failure [where n = MaxGroups and j = j])
       (simp_all add: fetch_error_def)
  then show b: "ListBatch m w = Some ([], Some e)"
    by (simp add: ListBatch_def)
  then show "List (m\<lparr>batchLookupSupported := True\<rparr>) w = Some ([], Some e)"
    by (simp add: List_def ListBatch_def)
next
  assume a: "(\<forall>i<j. fetch_error sm w MaxSubscribers i = None) \<and>
    fetch_error sm w MaxSubscribers j = Some e \<and> \<not> errors_Is e ErrKeyNotExist"
  then have "batch_loop sm w 0 (replicate MaxSubscribers zeroSubscriberV4Key)
      (replicate MaxSubscribers zeroSubscriberV4Val) 0 = Some (Inl e)"
    by (intro batch_loop_first_failure [where n = MaxSubscribers and j = j])
       (simp_all add: fetch_error_def)
  then show "SubscriberV4InnerMap_List sm w = Some ([], Some e)"
    by (simp add: SubscriberV4InnerMap_List_def)
qed

theorem enumeration_stops_at_first_error_witness:
  "Map_Iterate
     (kernel_outer\<lparr>Map_Iterate := \<lambda>w. ([(\<lparr>Group = (224, 0, 0, 1)\<rparr>, \<lparr>FD = 5\<rparr>)], Some (Errno 5)),
                   Map_BatchFetch := scripted_BatchFetch
                     [([(\<lparr>Group = (224, 0, 0, 1)\<rparr>, \<lparr>FD = 5\<rparr>)], None), ([], Some (Errno 1))]\<rparr>)
     \<lparr>groups = [], subscribers = [], handles = []\<rparr> =
     ([(\<lparr>Group = (224, 0, 0, 1)\<rparr>, \<lparr>FD = 5\<rparr>)], Some (Errno 5)) \<and>
   ListIterator
     \<lparr>Map = kernel_outer
        \<lparr>Map_Iterate := \<lambda>w. ([(\<lparr>Group = (224, 0, 0, 1)\<rparr>, \<lparr>FD = 5\<rparr>)], Some (Errno 5)),
         Map_BatchFetch := scripted_BatchFetch
           [([(\<lparr>Group = (224, 0, 0, 1)\<rparr>, \<lparr>FD = 5\<rparr>)], None), ([], Some (Errno 1))]\<rparr>,
      batchLookupSupported = True\<rparr>
     \<lparr>groups = [], subscribers = [], handles = []\<rparr> =
     ([Addr4 (224, 0, 0, 1)], Some (Errno 5)) \<and>
   fetch_error
      (kernel_outer
        \<lparr>Map_Iterate := \<lambda>w. ([(\<lparr>Group = (224, 0, 0, 1)\<rparr>, \<lparr>FD = 5\<rparr>)], Some (Errno 5)),
         Map_BatchFetch := scripted_BatchFetch
           [([(\<lparr>Group = (224, 0, 0, 1)\<rparr>, \<lparr>FD = 5\<rparr>)], None), ([], Some (Errno 1))]\<rparr>)
      \<lparr>groups = [], subscribers = [], handles = []\<rparr> MaxGroups 0 = None \<and>
   fetch_error
      (kernel_outer
        \<lparr>Map_Iterate := \<lambda>w. ([(\<lparr>Group = (224, 0, 0, 1)\<rparr>, \<lparr>FD = 5\<rparr>)], Some (Errno 5)),
         Map_BatchFetch := scripted_BatchFetch
           [([(\<lparr>Group = (224, 0, 0, 1)\<rparr>, \<lparr>FD = 5\<rparr>)], None), ([], Some (Errno 1))]\<rparr>)
      \<lparr>groups = [], subscribers = [], handles = []\<rparr> MaxGroups (Suc 0) = Some (Errno 1) \<and>
   \<not> errors_Is (Errno 1) ErrKeyNotExist \<and>
   ListBatch
     \<lparr>Map = kernel_outer
        \<lparr>Map_Iterate := \<lambda>w. ([(\<lparr>Group = (224, 0, 0, 1)\<rparr>, \<lparr>FD = 5\<rparr>)], Some (Errno 5)),
         Map_BatchFetch := scripted_BatchFetch
           [([(\<lparr>Group = (224, 0, 0, 1)\<rparr>, \<lparr>FD = 5\<rparr>)], None), ([], Some (Errno 1))]\<rparr>,
      batchLookupSupported = True\<rparr>
     \<lparr>groups = [], subscribers = [], handles = []\<rparr> = Some ([], Some (Errno 1)) \<and>
   SubscriberV4InnerMap_List
     ((kernel_inner 7)\<lparr>Map_BatchFetch := scripted_BatchFetch
        [([(\<lparr>SAddr = (10, 0, 0, 1)\<rparr>,
            \<lparr>SourceAddr = (10, 0, 0, 1), Ifindex = 1, Pad1 = 0, Pad2 = 0, Flags = 0\<rparr>)], None),
         ([], Some (Errno 1))]\<rparr>)
     \<lparr>groups = [], subscribers = [], handles = []\<rparr> = Some ([], Some (Errno 1))"
proof -
  let ?w = "\<lparr>groups = [], subscribers = [], handles = [] :: int list\<rparr>"
  let ?gm = "kernel_outer
        \<lparr>Map_Iterate := \<lambda>w. ([(\<lparr>Group = (224, 0, 0, 1)\<rparr>, \<lparr>FD = 5\<rparr>)], Some (Errno 5)),
         Map_BatchFetch := scripted_BatchFetch
           [([(\<lparr>Group = (224, 0, 0, 1)\<rparr>, \<lparr>FD = 5\<rparr>)], None), ([], Some (Errno 1))]\<rparr>"
  let ?sm = "(kernel_inner 7)\<lparr>Map_BatchFetch := scripted_BatchFetch
        [([(\<lparr>SAddr = (10, 0, 0, 1)\<rparr>,
            \<lparr>SourceAddr = (10, 0, 0, 1), Ifindex = 1, Pad1 = 0, Pad2 = 0, Flags = 0\<rparr>)], None),
         ([], Some (Errno 1))]\<rparr>"
  have h1: "Map_Iterate ?gm ?w = ([(\<lparr>Group = (224, 0, 0, 1)\<rparr>, \<lparr>FD = 5\<rparr>)], Some (Errno 5))"
    by simp
  have h2: "\<forall>i<Suc 0. fetch_error ?gm ?w MaxGroups i = None"
    by (simp add: fetch_error_def scripted_BatchFetch_def)
  have h3: "fetch_error ?gm ?w MaxGroups (Suc 0) = Some (Errno 1)"
    by (simp add: fetch_error_def scripted_BatchFetch_def)
  have h4: "\<not> errors_Is (Errno 1) ErrKeyNotExist" by simp
  have h5: "\<forall>i<Suc 0. fetch_error ?sm ?w MaxSubscribers i = None"
    by (simp add: fetch_error_def scripted_BatchFetch_def)
  have h6: "fetch_error ?sm ?w MaxSubscribers (Suc 0) = Some (Errno 1)"
    by (simp add: fetch_error_def scripted_BatchFetch_def)
  from enumeration_stops_at_first_error
    [of "\<lparr>Map = ?gm, batchLookupSupported = True\<rparr>" ?w
        "[(\<lparr>Group = (224, 0, 0, 1)\<rparr>, \<lparr>FD = 5\<rparr>)]" "Some (Errno 5)" "Suc 0" "Errno 1" ?sm]
    h1 h2 h3 h4 h5 h6
  show ?thesis by (simp add: GroupAddr_def)
qed

subsection \<open>The capability probe\<close>

text \<open>
  C6: \<open>haveBatchLookupSupport\<close> issues one bulk fetch, at the zero cursor with buffers of
  one element, and returns false exactly when that fetch fails with an error that is
  \<open>ErrNotSupported\<close>; success and every other error give true. The result is computed
  when the map is opened (\<open>OpenGroupV4OuterMap\<close>, and the start hook after a successful
  \<open>OpenOrCreate\<close>) and stored in \<open>batchLookupSupported\<close>; \<open>List\<close> reads the stored
  value and does not probe again.
\<close>

theorem probe_once_and_cached:
  "(\<not> haveBatchLookupSupport zk zv km w \<longleftrightarrow>
      (\<exists>e. fst (snd (Map_BatchFetch km 0 1 w)) = Some e \<and> errors_Is e ErrNotSupported)) \<and>
   OpenGroupV4OuterMap (Inr gm) w =
     Inr \<lparr>Map = gm,
          batchLookupSupported = haveBatchLookupSupport zeroGroupV4Key zeroGroupV4Val gm w\<rparr> \<and>
   OpenGroupV4OuterMap (Inl err) w = Inl err \<and>
   (Map_OpenOrCreate gm w = (None, w') \<longrightarrow>
      OnStart (NewGroupV4OuterMap gm) w =
        (None,
         \<lparr>Map = gm,
          batchLookupSupported = haveBatchLookupSupport zeroGroupV4Key zeroGroupV4Val gm w'\<rparr>,
         w')) \<and>
   List g w = (if batchLookupSupported g then ListBatch g w else Some (ListIterator g w))"
  by (auto simp: haveBatchLookupSupport_def BatchLookup_def Let_def OpenGroupV4OuterMap_def
      OnStart_def NewGroupV4OuterMap_def List_def split: prod.splits option.splits)

theorem probe_once_and_cached_witness:
  "\<not> haveBatchLookupSupport zeroGroupV4Key zeroGroupV4Val
       (kernel_outer\<lparr>Map_BatchFetch := \<lambda>c n w. ([], Some ErrNotSupported, c)\<rparr>)
       \<lparr>groups = [(\<lparr>Group = (224, 0, 0, 1)\<rparr>, \<lparr>FD = 5\<rparr>)], subscribers = [], handles = []\<rparr> \<and>
   Map_OpenOrCreate (kernel_outer\<lparr>Map_BatchFetch := \<lambda>c n w. ([], Some ErrNotSupported, c)\<rparr>)
       \<lparr>groups = [(\<lparr>Group = (224, 0, 0, 1)\<rparr>, \<lparr>FD = 5\<rparr>)], subscribers = [], handles = []\<rparr> =
     (None, \<lparr>groups = [(\<lparr>Group = (224, 0, 0, 1)\<rparr>, \<lparr>FD = 5\<rparr>)], subscribers = [],
             handles = []\<rparr>) \<and>
   OnStart (NewGroupV4OuterMap
              (kernel_outer\<lparr>Map_BatchFetch := \<lambda>c n w. ([], Some ErrNotSupported, c)\<rparr>))
       \<lparr>groups = [(\<lparr>Group = (224, 0, 0, 1)\<rparr>, \<lparr>FD = 5\<rparr>)], subscribers = [], handles = []\<rparr> =
     (None,
      \<lparr>Map = kernel_outer\<lparr>Map_BatchFetch := \<lambda>c n w. ([], Some ErrNotSupported, c)\<rparr>,
       batchLookupSupported = False\<rparr>,
      \<lparr>groups = [(\<lparr>Group = (224, 0, 0, 1)\<rparr>, \<lparr>FD = 5\<rparr>)], subscribers = [], handles = []\<rparr>) \<and>
   List \<lparr>Map = kernel_outer\<lparr>Map_BatchFetch := \<lambda>c n w. ([], Some ErrNotSupported, c)\<rparr>,
         batchLookupSupported = False\<rparr>
       \<lparr>groups = [(\<lparr>Group = (224, 0, 0, 1)\<rparr>, \<lparr>FD = 5\<rparr>)], subscribers = [], handles = []\<rparr> =
     Some ([Addr4 (224, 0, 0, 1)], None) \<and>
   haveBatchLookupSupport zeroGroupV4Key zeroGroupV4Val kernel_outer
       \<lparr>groups = [(\<lparr>Group = (224, 0, 0, 1)\<rparr>, \<lparr>FD = 5\<rparr>)], subscribers = [], handles = []\<rparr>"
proof -
  let ?w = "\<lparr>groups = [(\<lparr>Group = (224, 0, 0, 1)\<rparr>, \<lparr>FD = 5\<rparr>)], subscribers = [],
             handles = [] :: int list\<rparr>"
  let ?gm = "kernel_outer\<lparr>Map_BatchFetch := \<lambda>c n w. ([], Some ErrNotSupported, c)\<rparr>"
  have h: "Map_OpenOrCreate ?gm ?w = (None, ?w)" by (simp add: kernel_outer_def)
  have i: "ListIterator \<lparr>Map = ?gm, batchLookupSupported = False\<rparr> ?w =
      ([Addr4 (224, 0, 0, 1)], None)"
    by (simp add: ListIterator_def ListIterator_loop_eq GroupAddr_def kernel_outer_def)
  have k: "fst (snd (Map_BatchFetch kernel_outer 0 1 ?w)) = Some ErrKeyNotExist"
    by (simp add: kernel_outer_def table_BatchFetch_def)
  from probe_once_and_cached
    [of zeroGroupV4Key zeroGroupV4Val ?gm ?w ?gm _ ?w "\<lparr>Map = ?gm, batchLookupSupported = False\<rparr>"]
    probe_once_and_cached
    [of zeroGroupV4Key zeroGroupV4Val kernel_outer ?w ?gm _ ?w
        "\<lparr>Map = ?gm, batchLookupSupported = False\<rparr>"]
    h i k
  show ?thesis by simp
qed

end
